theory Spec2Isabelle
  imports Complex_Main
begin

section \<open>Numbers and utilities (utils.js)\<close>

text \<open>
  JavaScript numbers are modelled as the real numbers they stand for: every snapshot field
  is a finite number (no NaN, no infinities) and arithmetic is exact. The comparisons of
  \<open>clamp\<close> and of the threshold checks are exact on doubles as well; where a claim
  depends on rounding, the inputs used below stay away from rounding ties.
\<close>

text \<open>
  \<^verbatim>\<open>export const clamp = (value, min, max) => Math.max(min, Math.min(max, value));\<close>
  The argument order is the source's: value first.
\<close>

definition clamp :: "real \<Rightarrow> real \<Rightarrow> real \<Rightarrow> real" where
  "clamp value mn mx = max mn (min mx value)"

text \<open>
  \<^verbatim>\<open>export const formatNumber = (num, decimals = 1) => num.toFixed(decimals);\<close>
  (for a number \<open>num\<close>), at \<open>decimals = 1\<close>: the default, and the value of every call
  modelled here, each of which reads the string back with \<open>parseFloat\<close>. \<open>toFixed(1)\<close>
  splits the sign off, takes the integer \<open>n\<close> for which \<open>n / 10\<close> is nearest to the
  magnitude, the larger \<open>n\<close> at a tie, and prints \<open>n\<close> with the decimal point inserted;
  \<open>formatNumber num\<close> is the number that string denotes.
\<close>

definition formatNumber :: "real \<Rightarrow> real" where
  "formatNumber num =
     (if num < 0 then - (of_int \<lfloor>(- num) * 10 + 1 / 2\<rfloor> / 10)
      else of_int \<lfloor>num * 10 + 1 / 2\<rfloor> / 10)"

section \<open>Configuration (config.js)\<close>

record CAMPUS_INFO =
  solar_capacity :: real
  wind_capacity :: real
  battery_capacity :: real
  peak_demand :: real

record THRESHOLDS =
  battery_low :: real
  battery_high :: real
  load_high :: real
  performance_min :: real

record SIMULATION =
  solar_variation :: real
  wind_variation :: real
  load_variation :: real
  battery_variation :: real
  temperature_variation :: real
  wind_speed_variation :: real
  irradiance_variation :: real

record config =
  UPDATE_INTERVAL :: real
  campus_info :: CAMPUS_INFO
  thresholds :: THRESHOLDS
  simulation :: SIMULATION

text \<open>
  The constants of \<open>config.js\<close> that \<open>dataManager.js\<close> reads (of \<open>CAMPUS_INFO\<close>, the
  numeric entries).
\<close>

definition CONFIG :: config where
  "CONFIG =
     \<lparr> UPDATE_INTERVAL = 5000,
       campus_info = \<lparr> solar_capacity = 500, wind_capacity = 100,
                       battery_capacity = 800, peak_demand = 450 \<rparr>,
       thresholds = \<lparr> battery_low = 20, battery_high = 90,
                      load_high = 400, performance_min = 85 \<rparr>,
       simulation = \<lparr> solar_variation = 10, wind_variation = 3, load_variation = 8,
                      battery_variation = 0.5, temperature_variation = 0.5,
                      wind_speed_variation = 0.3, irradiance_variation = 20 \<rparr> \<rparr>"

section \<open>Status snapshots and the generator (dataManager.js)\<close>

record weather =
  temperature :: real
  wind_speed :: real
  irradiance :: real
  cloud_cover :: real

record status =
  timestamp :: string
  solar_generation :: real
  wind_generation :: real
  total_generation :: real
  campus_load :: real
  battery_soc :: real
  battery_power :: real
  grid_power :: real
  weather :: weather

text \<open>
  The seven values \<open>Math.random()\<close> returns during one call of
  \<open>simulateRealTimeData\<close>, named after the field each one perturbs, in call order.
\<close>

record draws =
  r_solar :: real
  r_wind :: real
  r_load :: real
  r_battery :: real
  r_temperature :: real
  r_wind_speed :: real
  r_irradiance :: real

text \<open>
  \<open>roundNumericValues(obj, decimals = 1)\<close>, called with the default \<open>decimals\<close>, walks
  the keys of the object: a number is replaced by \<open>parseFloat(formatNumber(v, 1))\<close>, a
  nested object is rounded recursively, anything else (the timestamp string) is kept. On a
  weather object and on a status object that is:
\<close>

definition roundNumericValues_weather :: "weather \<Rightarrow> weather" where
  "roundNumericValues_weather obj =
     \<lparr> temperature = formatNumber (temperature obj),
       wind_speed = formatNumber (wind_speed obj),
       irradiance = formatNumber (irradiance obj),
       cloud_cover = formatNumber (cloud_cover obj) \<rparr>"

definition roundNumericValues :: "status \<Rightarrow> status" where
  "roundNumericValues obj =
     \<lparr> timestamp = timestamp obj,
       solar_generation = formatNumber (solar_generation obj),
       wind_generation = formatNumber (wind_generation obj),
       total_generation = formatNumber (total_generation obj),
       campus_load = formatNumber (campus_load obj),
       battery_soc = formatNumber (battery_soc obj),
       battery_power = formatNumber (battery_power obj),
       grid_power = formatNumber (grid_power obj),
       weather = roundNumericValues_weather (weather obj) \<rparr>"

text \<open>
  The object \<open>updated\<close> of \<open>simulateRealTimeData\<close> as it stands just before
  \<open>return this.roundNumericValues(updated)\<close>. \<open>now\<close> is the value of
  \<open>new Date().toISOString()\<close>. Fields are assigned in the source's order; the two derived
  fields read the fields of \<open>updated\<close> assigned before them and \<open>status.battery_power\<close>.
\<close>

definition simulate_updated :: "config \<Rightarrow> draws \<Rightarrow> string \<Rightarrow> status \<Rightarrow> status" where
  "simulate_updated cfg rnd now status =
     (let sim = simulation cfg;
          updated = status;
          updated = updated\<lparr> solar_generation :=
            clamp (solar_generation status + (r_solar rnd - 0.5) * solar_variation sim)
              0 (solar_capacity (campus_info cfg)) \<rparr>;
          updated = updated\<lparr> wind_generation :=
            clamp (wind_generation status + (r_wind rnd - 0.5) * wind_variation sim)
              0 (wind_capacity (campus_info cfg)) \<rparr>;
          updated = updated\<lparr> campus_load :=
            clamp (campus_load status + (r_load rnd - 0.5) * load_variation sim)
              200 (peak_demand (campus_info cfg)) \<rparr>;
          updated = updated\<lparr> battery_soc :=
            clamp (battery_soc status + (r_battery rnd - 0.5) * battery_variation sim)
              (battery_low (thresholds cfg)) 100 \<rparr>;
          updated = updated\<lparr> weather :=
            \<lparr> temperature =
                clamp (temperature (weather status)
                         + (r_temperature rnd - 0.5) * temperature_variation sim) 25 40,
              wind_speed =
                clamp (wind_speed (weather status)
                         + (r_wind_speed rnd - 0.5) * wind_speed_variation sim) 0 15,
              irradiance =
                clamp (irradiance (weather status)
                         + (r_irradiance rnd - 0.5) * irradiance_variation sim) 0 1000,
              cloud_cover = cloud_cover (weather status) \<rparr> \<rparr>;
          updated = updated\<lparr> total_generation :=
            solar_generation updated + wind_generation updated \<rparr>;
          updated = updated\<lparr> grid_power :=
            campus_load updated - total_generation updated - battery_power status \<rparr>;
          updated = updated\<lparr> timestamp := now \<rparr>
      in updated)"

definition simulateRealTimeData :: "config \<Rightarrow> draws \<Rightarrow> string \<Rightarrow> status \<Rightarrow> status" where
  "simulateRealTimeData cfg rnd now status =
     roundNumericValues (simulate_updated cfg rnd now status)"

text \<open>The sample reading \<open>current_status\<close> that \<open>config.js\<close> ships.\<close>

definition current_status :: status where
  "current_status =
     \<lparr> timestamp = ''2025-09-27T16:33:00+05:30'',
       solar_generation = 385.5, wind_generation = 23.8, total_generation = 409.3,
       campus_load = 342.7, battery_soc = 78.5, battery_power = 25.2, grid_power = - 41.4,
       weather = \<lparr> temperature = 32.5, wind_speed = 4.2, irradiance = 785,
                    cloud_cover = 15 \<rparr> \<rparr>"


subsection \<open>Threshold alerts\<close>

record alert =
  type :: string
  message :: string
  alert_timestamp :: string

text \<open>
  \<open>checkThresholds\<close>. The template literals print a threshold with JavaScript's
  number-to-string conversion, which is the parameter \<open>str\<close>; \<open>t1\<close> and \<open>t2\<close> are
  the values of \<open>new Date().toISOString()\<close> at the first and at the second \<open>push\<close>.
\<close>

definition checkThresholds ::
  "(real \<Rightarrow> string) \<Rightarrow> config \<Rightarrow> string \<Rightarrow> string \<Rightarrow> status \<Rightarrow> alert list" where
  "checkThresholds str cfg t1 t2 status =
     (let alerts = [];
          th = thresholds cfg;
          alerts =
            (if battery_soc status < battery_low th
             then alerts @ [\<lparr> type = ''warning'',
                    message = ''Battery SOC below '' @ str (battery_low th)
                                @ ''% - consider charging'',
                    alert_timestamp = t1 \<rparr>]
             else alerts);
          alerts =
            (if campus_load status > load_high th
             then alerts @ [\<lparr> type = ''warning'',
                    message = ''Campus load exceeding '' @ str (load_high th)
                                @ '' kW - high demand detected'',
                    alert_timestamp = t2 \<rparr>]
             else alerts)
      in alerts)"

section \<open>The state manager (stateManager.js)\<close>

text \<open>
  A callback is a function object; the store compares callbacks by reference
  (\<open>listener !== callback\<close>), so a callback is modelled by its identity. What a callback
  does when called is outside the store: the model records each call in a trace and takes
  as a parameter \<open>raises c v\<close>, which says whether callback \<open>c\<close> throws when called with
  \<open>v\<close>. Callbacks are taken not to call back into the store while they run.

  \<open>this.state\<close> and \<open>this.listeners\<close> are plain objects. Reading \<open>obj[key]\<close> takes the
  own property of that name and, when there is none, goes on to the prototype of the
  object, which is \<open>Object.prototype\<close>: a key that names a member of \<open>Object.prototype\<close>
  reads as that member. An assignment \<open>obj[key] = v\<close> creates or updates an own property,
  except at the key \<open>__proto__\<close>, an accessor of \<open>Object.prototype\<close>, whose setter replaces
  the prototype of the object when \<open>v\<close> is an object or \<open>null\<close> and does nothing when
  \<open>v\<close> is a primitive. The stored values that are objects are taken to be ordinary
  objects (their prototype chain ends in \<open>Object.prototype\<close>, and they have no accessor,
  no read-only property and no own property \<open>__proto__\<close>), as the object literals and
  arrays of this application are.
\<close>

type_synonym callback = nat

datatype exception = TypeError | CallbackError callback

datatype completion = Normal | Thrown exception

text \<open>
  The string-named members of \<open>Object.prototype\<close>: eleven functions, and the accessor
  \<open>__proto__\<close>.
\<close>

definition Object_prototype_functions :: "string list" where
  "Object_prototype_functions =
     [''constructor'', ''__defineGetter__'', ''__defineSetter__'', ''hasOwnProperty'',
      ''__lookupGetter__'', ''__lookupSetter__'', ''isPrototypeOf'',
      ''propertyIsEnumerable'', ''toString'', ''valueOf'', ''toLocaleString'']"

definition inherited_key :: "string \<Rightarrow> bool" where
  "inherited_key key \<longleftrightarrow> key = ''__proto__'' \<or> key \<in> set Object_prototype_functions"

text \<open>
  What the setter of \<open>__proto__\<close> asks of a value: whether it is an object, \<open>null\<close>, or
  a primitive. The store is generic in its values, so this is a parameter \<open>typeOf\<close> of
  the operations that assign.
\<close>

datatype jstype = Primitive_type | Null_type | Object_type

text \<open>
  The prototype of \<open>this.state\<close>: \<open>Object.prototype\<close> at first; \<open>null\<close> or a stored
  object once an assignment to \<open>__proto__\<close> has replaced it.
\<close>

datatype 'v prototype = Object_prototype | Null_prototype | Object_value 'v

text \<open>
  \<open>state\<close> and \<open>listeners\<close> hold the own properties of the two objects. The prototype of
  \<open>this.listeners\<close> is never replaced (no statement of the class assigns to
  \<open>this.listeners[key]\<close> unless a read of it gave no inherited member), so it needs no
  field.
\<close>

record 'v StateManager =
  state :: "string \<rightharpoonup> 'v"
  state_prototype :: "'v prototype"
  listeners :: "string \<rightharpoonup> callback list"

text \<open>
  The result of reading a property of \<open>this.state\<close>: \<open>undefined\<close>; a stored value; the
  function of that name inherited from \<open>Object.prototype\<close>; \<open>Object.prototype\<close> itself
  (what the getter of \<open>__proto__\<close> returns at first); or the property of that name of the
  stored object that has become the prototype.
\<close>

datatype 'v property =
    Undefined
  | Value 'v
  | Inherited_function string
  | The_Object_prototype
  | Inherited 'v string

text \<open>\<open>get(key)\<close>: \<open>return this.state[key]\<close>.\<close>

definition get :: "'v StateManager \<Rightarrow> string \<Rightarrow> 'v property" where
  "get sm key =
     (case state sm key of
        Some v \<Rightarrow> Value v
      | None \<Rightarrow>
          (case state_prototype sm of
             Object_prototype \<Rightarrow>
               if key = ''__proto__'' then The_Object_prototype
               else if key \<in> set Object_prototype_functions then Inherited_function key
               else Undefined
           | Null_prototype \<Rightarrow> Undefined
           | Object_value obj \<Rightarrow>
               if key = ''__proto__'' then Value obj else Inherited obj key))"

text \<open>
  The statement \<open>this.state[key] = value\<close>. At \<open>__proto__\<close> the inherited setter runs,
  unless the object has an own property of that name or no prototype to inherit the
  setter from.
\<close>

definition assign_state ::
  "('v \<Rightarrow> jstype) \<Rightarrow> 'v StateManager \<Rightarrow> string \<Rightarrow> 'v \<Rightarrow> 'v StateManager" where
  "assign_state typeOf sm key value =
     (if key = ''__proto__'' \<and> state sm key = None \<and> state_prototype sm \<noteq> Null_prototype
      then
        (case typeOf value of
           Object_type \<Rightarrow> sm\<lparr> state_prototype := Object_value value \<rparr>
         | Null_type \<Rightarrow> sm\<lparr> state_prototype := Null_prototype \<rparr>
         | Primitive_type \<Rightarrow> sm)
      else sm\<lparr> state := (state sm)(key \<mapsto> value) \<rparr>)"

text \<open>
  \<open>array.forEach(callback => callback(value))\<close>: the callbacks are called in index order;
  an exception thrown by one of them leaves \<open>forEach\<close> at once.
\<close>

fun forEach ::
  "(callback \<Rightarrow> 'v \<Rightarrow> bool) \<Rightarrow> callback list \<Rightarrow> 'v \<Rightarrow> (callback \<times> 'v) list \<times> completion" where
  "forEach raises [] value = ([], Normal)"
| "forEach raises (c # cs) value =
     (if raises c value then ([(c, value)], Thrown (CallbackError c))
      else (case forEach raises cs value of (calls, r) \<Rightarrow> ((c, value) # calls, r)))"

text \<open>
  \<open>notify(key, value)\<close>: \<open>if (this.listeners[key]) this.listeners[key].forEach(...)\<close>.
  An own array is truthy, also when empty. With no own property, a key that names a member
  of \<open>Object.prototype\<close> reads as that member, which is truthy and has no \<open>forEach\<close>: a
  TypeError. Any other key reads as \<open>undefined\<close> and nothing is called.
\<close>

definition notify ::
  "(callback \<Rightarrow> 'v \<Rightarrow> bool) \<Rightarrow> 'v StateManager \<Rightarrow> string \<Rightarrow> 'v
     \<Rightarrow> (callback \<times> 'v) list \<times> completion" where
  "notify raises sm key value =
     (case listeners sm key of
        Some cbs \<Rightarrow> forEach raises cbs value
      | None \<Rightarrow> if inherited_key key then ([], Thrown TypeError) else ([], Normal))"

text \<open>
  \<open>set(key, value)\<close> returns the store after the call, the calls made and how the call
  ended. The assignment comes before \<open>notify\<close>, so it stays when \<open>notify\<close> throws.
\<close>

definition set_key ::
  "('v \<Rightarrow> jstype) \<Rightarrow> (callback \<Rightarrow> 'v \<Rightarrow> bool) \<Rightarrow> 'v StateManager \<Rightarrow> string \<Rightarrow> 'v
     \<Rightarrow> 'v StateManager \<times> (callback \<times> 'v) list \<times> completion" where
  "set_key typeOf raises sm key value =
     (let sm' = assign_state typeOf sm key value
      in (sm', notify raises sm' key value))"

text \<open>
  The function that \<open>subscribe(key, callback)\<close> returns. \<open>filter\<close> is called on
  \<open>this.listeners[key]\<close>: a TypeError when that is not an own array (\<open>undefined\<close>, or an
  inherited member, which has no \<open>filter\<close>).
\<close>

definition unsubscribe ::
  "string \<Rightarrow> callback \<Rightarrow> 'v StateManager \<Rightarrow> exception + 'v StateManager" where
  "unsubscribe key callback sm =
     (case listeners sm key of
        None \<Rightarrow> Inl TypeError
      | Some cbs \<Rightarrow>
          Inr (sm\<lparr> listeners :=
                 (listeners sm)(key \<mapsto> filter (\<lambda>listener. listener \<noteq> callback) cbs) \<rparr>))"

text \<open>
  \<open>subscribe(key, callback)\<close>. \<open>!this.listeners[key]\<close> holds when the key has no own
  array and names no member of \<open>Object.prototype\<close>: it then gets an empty array. The
  callback is pushed at the end of the array and the function above is returned. At a key
  that names a member of \<open>Object.prototype\<close> (and has no own array) the member is read
  instead, which has no \<open>push\<close>: a TypeError, and nothing is registered.
\<close>

definition subscribe ::
  "'v StateManager \<Rightarrow> string \<Rightarrow> callback
     \<Rightarrow> exception + 'v StateManager \<times> ('v StateManager \<Rightarrow> exception + 'v StateManager)" where
  "subscribe sm key callback =
     (let sm = (if listeners sm key = None \<and> \<not> inherited_key key
                then sm\<lparr> listeners := (listeners sm)(key \<mapsto> []) \<rparr>
                else sm)
      in case listeners sm key of
           None \<Rightarrow> Inl TypeError
         | Some cbs \<Rightarrow>
             Inr (sm\<lparr> listeners := (listeners sm)(key \<mapsto> cbs @ [callback]) \<rparr>,
                  unsubscribe key callback))"

section \<open>The values kept in the store\<close>

record point =
  time :: string
  solar :: real
  wind :: real
  load :: real
  battery :: real

record user =
  name :: string
  username :: string

text \<open>
  The JavaScript values the application keeps under its store keys: \<open>null\<close>, booleans,
  strings, the logged-in user, a status snapshot, a history point, and arrays.
\<close>

datatype jsvalue =
    Null
  | Bool bool
  | Str string
  | UserObj user
  | StatusObj status
  | PointObj point
  | Arr "jsvalue list"

fun jsvalue_type :: "jsvalue \<Rightarrow> jstype" where
  "jsvalue_type Null = Null_type"
| "jsvalue_type (Bool b) = Primitive_type"
| "jsvalue_type (Str s) = Primitive_type"
| "jsvalue_type (UserObj u) = Object_type"
| "jsvalue_type (StatusObj s) = Object_type"
| "jsvalue_type (PointObj p) = Object_type"
| "jsvalue_type (Arr xs) = Object_type"

text \<open>The object literal \<open>initialState\<close> and the single store instance built from it.\<close>

definition initialState :: "string \<rightharpoonup> jsvalue" where
  "initialState =
     [''loading'' \<mapsto> Bool True,
      ''error'' \<mapsto> Null,
      ''isAuthenticated'' \<mapsto> Bool False,
      ''user'' \<mapsto> Null,
      ''currentStatus'' \<mapsto> Null,
      ''historicalData'' \<mapsto> Arr [],
      ''forecasts'' \<mapsto> Arr [],
      ''recommendations'' \<mapsto> Arr [],
      ''alerts'' \<mapsto> Arr []]"

definition stateManager :: "jsvalue StateManager" where
  "stateManager =
     \<lparr> state = initialState, state_prototype = Object_prototype, listeners = Map.empty \<rparr>"

definition updateHistoricalData ::
  "(callback \<Rightarrow> jsvalue \<Rightarrow> bool) \<Rightarrow> jsvalue StateManager \<Rightarrow> jsvalue
     \<Rightarrow> jsvalue StateManager \<times> (callback \<times> jsvalue) list \<times> completion" where
  "updateHistoricalData raises sm data =
     set_key jsvalue_type raises sm ''historicalData'' data"

text \<open>
  \<open>loginUser(user)\<close>: two \<open>set\<close> calls; an exception out of the first one skips the
  second.
\<close>

definition loginUser ::
  "(callback \<Rightarrow> jsvalue \<Rightarrow> bool) \<Rightarrow> jsvalue StateManager \<Rightarrow> user
     \<Rightarrow> jsvalue StateManager \<times> (callback \<times> jsvalue) list \<times> completion" where
  "loginUser raises sm u =
     (case set_key jsvalue_type raises sm ''isAuthenticated'' (Bool True) of
        (sm1, calls1, Thrown e) \<Rightarrow> (sm1, calls1, Thrown e)
      | (sm1, calls1, Normal) \<Rightarrow>
          (case set_key jsvalue_type raises sm1 ''user'' (UserObj u) of
             (sm2, calls2, r) \<Rightarrow> (sm2, calls1 @ calls2, r)))"

definition logoutUser ::
  "(callback \<Rightarrow> jsvalue \<Rightarrow> bool) \<Rightarrow> jsvalue StateManager
     \<Rightarrow> jsvalue StateManager \<times> (callback \<times> jsvalue) list \<times> completion" where
  "logoutUser raises sm =
     (case set_key jsvalue_type raises sm ''isAuthenticated'' (Bool False) of
        (sm1, calls1, Thrown e) \<Rightarrow> (sm1, calls1, Thrown e)
      | (sm1, calls1, Normal) \<Rightarrow>
          (case set_key jsvalue_type raises sm1 ''user'' Null of
             (sm2, calls2, r) \<Rightarrow> (sm2, calls1 @ calls2, r)))"

section \<open>The history (dataManager.js)\<close>

text \<open>
  \<open>Math.floor((24 * 60 * 60) / (CONFIG.UPDATE_INTERVAL / 1000))\<close>. Dividing by zero gives
  \<open>Infinity\<close> in JavaScript, which no length exceeds: that is \<open>None\<close>.
\<close>

definition maxPoints :: "config \<Rightarrow> int option" where
  "maxPoints cfg =
     (if UPDATE_INTERVAL cfg / 1000 = 0 then None
      else Some \<lfloor>(24 * 60 * 60) / (UPDATE_INTERVAL cfg / 1000)\<rfloor>)"

text \<open>
  \<open>addHistoricalDataPoint(status)\<close>. \<open>timeString\<close> is the value of
  \<open>now.toLocaleTimeString(...)\<close>. \<open>stateManager.get('historicalData') || []\<close> is the stored
  array, or a fresh empty array when what is read is falsy: \<open>undefined\<close>, \<open>null\<close>,
  \<open>false\<close>, the empty string, and also the property \<open>historicalData\<close> of a stored object
  that has become the prototype of the state, since no object of the application (user,
  status, point, array) has a property of that name. Any other value read has no
  \<open>push\<close>, a TypeError. \<open>push\<close> appends at the end, \<open>shift\<close> removes the first element,
  once.
\<close>

definition addHistoricalDataPoint ::
  "(callback \<Rightarrow> jsvalue \<Rightarrow> bool) \<Rightarrow> config \<Rightarrow> string \<Rightarrow> status \<Rightarrow> jsvalue StateManager
     \<Rightarrow> jsvalue StateManager \<times> (callback \<times> jsvalue) list \<times> completion" where
  "addHistoricalDataPoint raises cfg timeString status sm =
     (let stored = get sm ''historicalData'';
          historical =
            (case stored of
               Value (Arr xs) \<Rightarrow> Some xs
             | Undefined \<Rightarrow> Some []
             | Value Null \<Rightarrow> Some []
             | Value (Bool False) \<Rightarrow> Some []
             | Value (Str []) \<Rightarrow> Some []
             | Inherited obj key \<Rightarrow> Some []
             | _ \<Rightarrow> None)
      in case historical of
           None \<Rightarrow> (sm, [], Thrown TypeError)
         | Some historical \<Rightarrow>
             (let newPoint =
                    \<lparr> time = timeString,
                      solar = solar_generation status,
                      wind = wind_generation status,
                      load = campus_load status,
                      battery = battery_soc status \<rparr>;
                  historical = historical @ [PointObj newPoint];
                  historical =
                    (case maxPoints cfg of
                       None \<Rightarrow> historical
                     | Some m \<Rightarrow>
                         if int (length historical) > m then tl historical else historical)
              in updateHistoricalData raises sm (Arr historical)))"

section \<open>The mock authentication service (authService.js)\<close>

text \<open>
  \<open>JSON.stringify\<close> of a user object whose two strings need no escaping, as is the case
  for the one user \<open>login\<close> builds.
\<close>

definition quoted :: "string \<Rightarrow> string" where
  "quoted s = CHR 0x22 # s @ [CHR 0x22]"

definition JSON_stringify :: "user \<Rightarrow> string" where
  "JSON_stringify u =
     ''{'' @ quoted ''name'' @ '':'' @ quoted (name u) @ '',''
       @ quoted ''username'' @ '':'' @ quoted (username u) @ ''}''"

record world =
  sessionStorage :: "string \<rightharpoonup> string"
  store :: "jsvalue StateManager"

text \<open>
  How the promise returned by \<open>login\<close> ends: resolved with the user, rejected with the
  message of the \<open>Error\<close>, or never settled because an exception left the timer callback
  before \<open>resolve\<close> was reached.
\<close>

datatype promise = Resolved user | Rejected string | Unsettled exception

text \<open>
  \<open>login(username, password)\<close>: the effect of the timer callback once the 500 ms have
  passed.
\<close>

definition login ::
  "(callback \<Rightarrow> jsvalue \<Rightarrow> bool) \<Rightarrow> string \<Rightarrow> string \<Rightarrow> world
     \<Rightarrow> world \<times> (callback \<times> jsvalue) list \<times> promise" where
  "login raises uname password w =
     (if uname = ''admin'' \<and> password = ''password'' then
        (let u = \<lparr> name = ''Admin User'', username = ''admin'' \<rparr>;
             w = w\<lparr> sessionStorage := (sessionStorage w)(''authUser'' \<mapsto> JSON_stringify u) \<rparr>
         in case loginUser raises (store w) u of
              (sm, calls, Normal) \<Rightarrow> (w\<lparr> store := sm \<rparr>, calls, Resolved u)
            | (sm, calls, Thrown e) \<Rightarrow> (w\<lparr> store := sm \<rparr>, calls, Unsettled e))
      else (w, [], Rejected ''Invalid credentials. Try admin/password.''))"

section \<open>Vocabulary of the properties\<close>

text \<open>
  The configured range of every bounded field of a snapshot, with the limits
  \<open>simulateRealTimeData\<close> passes to \<open>clamp\<close>.
\<close>

definition within_bounds :: "config \<Rightarrow> status \<Rightarrow> bool" where
  "within_bounds cfg s \<longleftrightarrow>
     0 \<le> solar_generation s \<and> solar_generation s \<le> solar_capacity (campus_info cfg) \<and>
     0 \<le> wind_generation s \<and> wind_generation s \<le> wind_capacity (campus_info cfg) \<and>
     200 \<le> campus_load s \<and> campus_load s \<le> peak_demand (campus_info cfg) \<and>
     battery_low (thresholds cfg) \<le> battery_soc s \<and> battery_soc s \<le> 100 \<and>
     25 \<le> temperature (weather s) \<and> temperature (weather s) \<le> 40 \<and>
     0 \<le> wind_speed (weather s) \<and> wind_speed (weather s) \<le> 15 \<and>
     0 \<le> irradiance (weather s) \<and> irradiance (weather s) \<le> 1000"

text \<open>
  The callbacks subscribed to a key, in subscription order: the own array
  \<open>this.listeners[key]\<close>, none when there is no such array.
\<close>

definition subscribers :: "'v StateManager \<Rightarrow> string \<Rightarrow> callback list" where
  "subscribers sm key = (case listeners sm key of None \<Rightarrow> [] | Some cbs \<Rightarrow> cbs)"

text \<open>Two behaviours of callbacks: none throws; exactly the callback \<open>c0\<close> throws.\<close>

definition never_raises :: "callback \<Rightarrow> 'v \<Rightarrow> bool" where
  "never_raises c v = False"

definition raises_only :: "callback \<Rightarrow> callback \<Rightarrow> 'v \<Rightarrow> bool" where
  "raises_only c0 c v \<longleftrightarrow> c = c0"

text \<open>
  The history point \<open>addHistoricalDataPoint\<close> builds from a time string and a status, and
  a sequence of calls of \<open>addHistoricalDataPoint\<close>, one per tick, each on the store the
  call before left (also when a subscriber made that call throw: \<open>updateRealTimeData\<close>
  runs inside a \<open>try\<close> and the next tick goes on).
\<close>

definition toPoint :: "string \<times> status \<Rightarrow> jsvalue" where
  "toPoint ts =
     PointObj \<lparr> time = fst ts, solar = solar_generation (snd ts), wind = wind_generation (snd ts),
                load = campus_load (snd ts), battery = battery_soc (snd ts) \<rparr>"

fun addAll ::
  "(callback \<Rightarrow> jsvalue \<Rightarrow> bool) \<Rightarrow> config \<Rightarrow> (string \<times> status) list
     \<Rightarrow> jsvalue StateManager \<Rightarrow> jsvalue StateManager" where
  "addAll raises cfg [] sm = sm"
| "addAll raises cfg ((timeString, status) # rest) sm =
     addAll raises cfg rest (fst (addHistoricalDataPoint raises cfg timeString status sm))"

text \<open>
  The operations a client can apply to the store, and a sequence of them run in order, an
  operation that throws leaving the store as the exception found it. An \<open>Unsubscribe\<close> is
  a call of the function a \<open>subscribe(key, callback)\<close> returned.
\<close>

datatype 'v operation = Set string 'v | Subscribe string callback | Unsubscribe string callback

fun apply_operation ::
  "('v \<Rightarrow> jstype) \<Rightarrow> (callback \<Rightarrow> 'v \<Rightarrow> bool) \<Rightarrow> 'v StateManager \<Rightarrow> 'v operation
     \<Rightarrow> 'v StateManager" where
  "apply_operation typeOf raises sm (Set key v) = fst (set_key typeOf raises sm key v)"
| "apply_operation typeOf raises sm (Subscribe key callback) =
     (case subscribe sm key callback of Inl e \<Rightarrow> sm | Inr (sm', unsub) \<Rightarrow> sm')"
| "apply_operation typeOf raises sm (Unsubscribe key callback) =
     (case unsubscribe key callback sm of Inl e \<Rightarrow> sm | Inr sm' \<Rightarrow> sm')"

definition run ::
  "('v \<Rightarrow> jstype) \<Rightarrow> (callback \<Rightarrow> 'v \<Rightarrow> bool) \<Rightarrow> 'v operation list \<Rightarrow> 'v StateManager
     \<Rightarrow> 'v StateManager" where
  "run typeOf raises ops sm = foldl (apply_operation typeOf raises) sm ops"

text \<open>
  Number-to-string conversion on the non-negative integers, which is what the thresholds
  of \<open>config.js\<close> are: the decimal digits.
\<close>

fun decimal :: "nat \<Rightarrow> string" where
  "decimal n =
     (if n < 10 then [''0123456789'' ! n]
      else decimal (n div 10) @ [''0123456789'' ! (n mod 10)])"

definition integer_toString :: "real \<Rightarrow> string" where
  "integer_toString x = decimal (nat \<lfloor>x\<rfloor>)"

text \<open>
  The two messages \<open>checkThresholds\<close> builds, by which a battery alert and a load alert
  are told apart (both have the type \<open>warning\<close>), and an alert without its timestamp.
\<close>

definition battery_low_message :: "(real \<Rightarrow> string) \<Rightarrow> config \<Rightarrow> string" where
  "battery_low_message str cfg =
     ''Battery SOC below '' @ str (battery_low (thresholds cfg)) @ ''% - consider charging''"

definition load_high_message :: "(real \<Rightarrow> string) \<Rightarrow> config \<Rightarrow> string" where
  "load_high_message str cfg =
     ''Campus load exceeding '' @ str (load_high (thresholds cfg))
       @ '' kW - high demand detected''"

definition untimed :: "alert \<Rightarrow> string \<times> string" where
  "untimed a = (type a, message a)"

section \<open>Rounding to one decimal place\<close>

lemma formatNumber_err: "\<bar>formatNumber x - x\<bar> \<le> 1/20"
proof (cases "x < 0")
  case True
  define f where "f = \<lfloor>(- x) * 10 + 1 / 2\<rfloor>"
  have "of_int f \<le> (- x) * 10 + 1 / 2" "(- x) * 10 + 1 / 2 < of_int f + 1"
    unfolding f_def by linarith+
  moreover have "formatNumber x = - (of_int f / 10)"
    using True by (simp add: formatNumber_def f_def)
  ultimately show ?thesis by linarith
next
  case False
  define f where "f = \<lfloor>x * 10 + 1 / 2\<rfloor>"
  have "of_int f \<le> x * 10 + 1 / 2" "x * 10 + 1 / 2 < of_int f + 1"
    unfolding f_def by linarith+
  moreover have "formatNumber x = of_int f / 10"
    using False by (simp add: formatNumber_def f_def)
  ultimately show ?thesis by linarith
qed

lemma formatNumber_tenth: "\<exists>k::int. formatNumber x = of_int k / 10"
proof (cases "x < 0")
  case True
  then have "formatNumber x = of_int (- \<lfloor>(- x) * 10 + 1 / 2\<rfloor>) / 10"
    by (simp add: formatNumber_def)
  then show ?thesis by blast
next
  case False
  then have "formatNumber x = of_int \<lfloor>x * 10 + 1 / 2\<rfloor> / 10"
    by (simp add: formatNumber_def)
  then show ?thesis by blast
qed

lemma formatNumber_of_tenth: "formatNumber (of_int k / 10) = of_int k / 10"
proof (cases "k < 0")
  case True
  have "\<lfloor>of_int (- k) + (1 / 2 :: real)\<rfloor> = - k" by linarith
  then show ?thesis using True by (simp add: formatNumber_def)
next
  case False
  have "\<lfloor>of_int k + (1 / 2 :: real)\<rfloor> = k" by linarith
  then show ?thesis using False by (simp add: formatNumber_def)
qed

lemma formatNumber_mono: "x \<le> y \<Longrightarrow> formatNumber x \<le> formatNumber y"
proof -
  assume xy: "x \<le> y"
  have nonneg: "0 \<le> formatNumber z" if "0 \<le> z" for z
  proof -
    have "0 \<le> \<lfloor>z * 10 + 1 / 2\<rfloor>" using that by simp
    then show ?thesis using that by (simp add: formatNumber_def)
  qed
  have nonpos: "formatNumber z \<le> 0" if "z < 0" for z
  proof -
    have "0 \<le> \<lfloor>(- z) * 10 + 1 / 2\<rfloor>" using that by simp
    then show ?thesis using that by (simp add: formatNumber_def)
  qed
  consider "y < 0" | "x < 0" "0 \<le> y" | "0 \<le> x" using xy by linarith
  then show ?thesis
  proof cases
    case 1
    then have "x < 0" using xy by simp
    have "\<lfloor>(- y) * 10 + 1 / 2\<rfloor> \<le> \<lfloor>(- x) * 10 + 1 / 2\<rfloor>"
      using xy by (intro floor_mono) simp
    then show ?thesis using 1 \<open>x < 0\<close> by (simp add: formatNumber_def divide_le_cancel)
  next
    case 2
    then show ?thesis using nonneg [of y] nonpos [of x] by linarith
  next
    case 3
    then have "0 \<le> y" using xy by simp
    have "\<lfloor>x * 10 + 1 / 2\<rfloor> \<le> \<lfloor>y * 10 + 1 / 2\<rfloor>"
      using xy by (intro floor_mono) simp
    then show ?thesis using 3 \<open>0 \<le> y\<close> by (simp add: formatNumber_def divide_le_cancel)
  qed
qed

lemma int_gap:
  fixes k n :: int
  assumes "\<bar>real_of_int k\<bar> < real_of_int n + 1"
  shows "\<bar>real_of_int k\<bar> \<le> real_of_int n"
proof -
  have "real_of_int \<bar>k\<bar> < real_of_int (n + 1)" using assms by simp
  then have "\<bar>k\<bar> < n + 1" by (simp only: of_int_less_iff)
  then have "\<bar>k\<bar> \<le> n" by simp
  then have "real_of_int \<bar>k\<bar> \<le> real_of_int n" by (simp only: of_int_le_iff)
  then show ?thesis by simp
qed

lemma formatNumber_add:
  "\<bar>formatNumber (a + b) - (formatNumber a + formatNumber b)\<bar> \<le> 1 / 10"
proof -
  obtain k1 k2 k3 :: int where k:
    "formatNumber (a + b) = of_int k1 / 10" "formatNumber a = of_int k2 / 10" "formatNumber b = of_int k3 / 10"
    using formatNumber_tenth by metis
  have "\<bar>formatNumber (a + b) - (formatNumber a + formatNumber b)\<bar> \<le> 3 / 20"
    using formatNumber_err [of "a + b"] formatNumber_err [of a] formatNumber_err [of b] by linarith
  then have "\<bar>real_of_int (k1 - (k2 + k3))\<bar> < real_of_int 1 + 1"
    unfolding k abs_le_iff abs_less_iff by simp
  then have "\<bar>real_of_int (k1 - (k2 + k3))\<bar> \<le> real_of_int 1" by (rule int_gap)
  then show ?thesis unfolding k abs_le_iff by simp
qed

lemma formatNumber_sub3:
  "\<bar>formatNumber (a - b - c) - (formatNumber a - formatNumber b - formatNumber c)\<bar> \<le> 2 / 10"
proof -
  obtain k1 k2 k3 k4 :: int where k:
    "formatNumber (a - b - c) = of_int k1 / 10" "formatNumber a = of_int k2 / 10"
    "formatNumber b = of_int k3 / 10" "formatNumber c = of_int k4 / 10"
    using formatNumber_tenth by metis
  have "\<bar>formatNumber (a - b - c) - (formatNumber a - formatNumber b - formatNumber c)\<bar> \<le> 4 / 20"
    using formatNumber_err [of "a - b - c"] formatNumber_err [of a] formatNumber_err [of b]
      formatNumber_err [of c] by linarith
  then show ?thesis by simp
qed

lemma formatNumber_ge: "lo \<le> x \<Longrightarrow> formatNumber lo = lo \<Longrightarrow> lo \<le> formatNumber x"
  using formatNumber_mono [of lo x] by simp

lemma formatNumber_le: "x \<le> hi \<Longrightarrow> formatNumber hi = hi \<Longrightarrow> formatNumber x \<le> hi"
  using formatNumber_mono [of x hi] by simp

lemma formatNumber_of_int [simp]: "formatNumber (of_int k) = of_int k"
  using formatNumber_of_tenth [of "10 * k"] by simp

lemma formatNumber_numeral [simp]: "formatNumber (numeral n) = numeral n"
  using formatNumber_of_int [of "numeral n"] by simp

lemma formatNumber_zero [simp]: "formatNumber 0 = 0"
  using formatNumber_of_int [of 0] by simp

section \<open>The generator\<close>

lemma updated_fields:
  "solar_generation (simulate_updated cfg rnd now st) =
     clamp (solar_generation st + (r_solar rnd - 0.5) * solar_variation (simulation cfg))
       0 (solar_capacity (campus_info cfg))"
  "wind_generation (simulate_updated cfg rnd now st) =
     clamp (wind_generation st + (r_wind rnd - 0.5) * wind_variation (simulation cfg))
       0 (wind_capacity (campus_info cfg))"
  "campus_load (simulate_updated cfg rnd now st) =
     clamp (campus_load st + (r_load rnd - 0.5) * load_variation (simulation cfg))
       200 (peak_demand (campus_info cfg))"
  "battery_soc (simulate_updated cfg rnd now st) =
     clamp (battery_soc st + (r_battery rnd - 0.5) * battery_variation (simulation cfg))
       (battery_low (thresholds cfg)) 100"
  "temperature (weather (simulate_updated cfg rnd now st)) =
     clamp (temperature (weather st)
              + (r_temperature rnd - 0.5) * temperature_variation (simulation cfg)) 25 40"
  "wind_speed (weather (simulate_updated cfg rnd now st)) =
     clamp (wind_speed (weather st)
              + (r_wind_speed rnd - 0.5) * wind_speed_variation (simulation cfg)) 0 15"
  "irradiance (weather (simulate_updated cfg rnd now st)) =
     clamp (irradiance (weather st)
              + (r_irradiance rnd - 0.5) * irradiance_variation (simulation cfg)) 0 1000"
  "cloud_cover (weather (simulate_updated cfg rnd now st)) = cloud_cover (weather st)"
  "battery_power (simulate_updated cfg rnd now st) = battery_power st"
  "total_generation (simulate_updated cfg rnd now st) =
     solar_generation (simulate_updated cfg rnd now st)
       + wind_generation (simulate_updated cfg rnd now st)"
  "grid_power (simulate_updated cfg rnd now st) =
     campus_load (simulate_updated cfg rnd now st)
       - total_generation (simulate_updated cfg rnd now st) - battery_power st"
  "timestamp (simulate_updated cfg rnd now st) = now"
  by (simp_all add: simulate_updated_def Let_def)

lemma rounded_fields:
  "solar_generation (roundNumericValues s) = formatNumber (solar_generation s)"
  "wind_generation (roundNumericValues s) = formatNumber (wind_generation s)"
  "total_generation (roundNumericValues s) = formatNumber (total_generation s)"
  "campus_load (roundNumericValues s) = formatNumber (campus_load s)"
  "battery_soc (roundNumericValues s) = formatNumber (battery_soc s)"
  "battery_power (roundNumericValues s) = formatNumber (battery_power s)"
  "grid_power (roundNumericValues s) = formatNumber (grid_power s)"
  "temperature (weather (roundNumericValues s)) = formatNumber (temperature (weather s))"
  "wind_speed (weather (roundNumericValues s)) = formatNumber (wind_speed (weather s))"
  "irradiance (weather (roundNumericValues s)) = formatNumber (irradiance (weather s))"
  "cloud_cover (weather (roundNumericValues s)) = formatNumber (cloud_cover (weather s))"
  "timestamp (roundNumericValues s) = timestamp s"
  by (simp_all add: roundNumericValues_def roundNumericValues_weather_def)

lemma within_bounds_updated:
  assumes "0 \<le> solar_capacity (campus_info cfg)" "0 \<le> wind_capacity (campus_info cfg)"
    "200 \<le> peak_demand (campus_info cfg)" "battery_low (thresholds cfg) \<le> 100"
  shows "within_bounds cfg (simulate_updated cfg rnd now st)"
  unfolding within_bounds_def updated_fields using assms by (simp add: clamp_def)

lemma within_bounds_rounded:
  assumes "within_bounds cfg s"
    "formatNumber (solar_capacity (campus_info cfg)) = solar_capacity (campus_info cfg)"
    "formatNumber (wind_capacity (campus_info cfg)) = wind_capacity (campus_info cfg)"
    "formatNumber (peak_demand (campus_info cfg)) = peak_demand (campus_info cfg)"
    "formatNumber (battery_low (thresholds cfg)) = battery_low (thresholds cfg)"
  shows "within_bounds cfg (roundNumericValues s)"
  using assms unfolding within_bounds_def rounded_fields
  by (simp add: formatNumber_ge formatNumber_le)

text \<open>
  C1, as stated: the published snapshot has
  \<open>total_generation = solar_generation + wind_generation\<close>, also after rounding. It
  fails on the sample reading of \<open>config.js\<close> with the draws 0.504 for solar and 0.51 for
  wind: solar becomes 385.54 and wind 23.83, which round to 385.5 and 23.8, while their
  sum 409.37 rounds to 409.4.
\<close>

theorem total_generation_rounded_counterexample:
  "\<not> (total_generation (simulateRealTimeData CONFIG
          \<lparr> r_solar = 0.504, r_wind = 0.51, r_load = 0.5, r_battery = 0.5,
            r_temperature = 0.5, r_wind_speed = 0.5, r_irradiance = 0.5 \<rparr>
          ''2025-09-27T11:03:05.000Z'' current_status)
      = solar_generation (simulateRealTimeData CONFIG
          \<lparr> r_solar = 0.504, r_wind = 0.51, r_load = 0.5, r_battery = 0.5,
            r_temperature = 0.5, r_wind_speed = 0.5, r_irradiance = 0.5 \<rparr>
          ''2025-09-27T11:03:05.000Z'' current_status)
        + wind_generation (simulateRealTimeData CONFIG
          \<lparr> r_solar = 0.504, r_wind = 0.51, r_load = 0.5, r_battery = 0.5,
            r_temperature = 0.5, r_wind_speed = 0.5, r_irradiance = 0.5 \<rparr>
          ''2025-09-27T11:03:05.000Z'' current_status))"
  by (simp add: simulateRealTimeData_def rounded_fields updated_fields clamp_def
        formatNumber_def CONFIG_def current_status_def)

text \<open>
  C1, amended: for every previous snapshot, configuration and random draws, the total is
  the sum of solar and wind generation exactly before the rounding step; the published
  total is that sum rounded to one decimal place, and it differs from the sum of the
  published solar and wind generation by at most 0.1.
\<close>

theorem total_generation_sum:
  "total_generation (simulate_updated cfg rnd now st) =
     solar_generation (simulate_updated cfg rnd now st)
       + wind_generation (simulate_updated cfg rnd now st)
   \<and> total_generation (simulateRealTimeData cfg rnd now st) =
       formatNumber (solar_generation (simulate_updated cfg rnd now st)
                     + wind_generation (simulate_updated cfg rnd now st))
   \<and> \<bar>total_generation (simulateRealTimeData cfg rnd now st)
        - (solar_generation (simulateRealTimeData cfg rnd now st)
           + wind_generation (simulateRealTimeData cfg rnd now st))\<bar> \<le> 1 / 10"
  unfolding simulateRealTimeData_def rounded_fields updated_fields(10)
  using formatNumber_add by simp

text \<open>
  C2: with the constants of \<open>config.js\<close>, for every previous snapshot and all random
  draws, every bounded field lies in its configured range, before the rounding step and
  in the published snapshot: solar generation in [0, 500], wind generation in [0, 100],
  campus load in [200, 450], battery SOC in [20, 100], temperature in [25, 40], wind speed
  in [0, 15] and irradiance in [0, 1000].
\<close>

theorem simulateRealTimeData_within_bounds:
  "within_bounds CONFIG (simulate_updated CONFIG rnd now st) \<and>
   within_bounds CONFIG (simulateRealTimeData CONFIG rnd now st)"
proof -
  have u: "within_bounds CONFIG (simulate_updated CONFIG rnd now st)"
    by (rule within_bounds_updated) (simp_all add: CONFIG_def)
  have "within_bounds CONFIG (roundNumericValues (simulate_updated CONFIG rnd now st))"
    using u by (rule within_bounds_rounded) (simp_all add: CONFIG_def)
  with u show ?thesis by (simp add: simulateRealTimeData_def)
qed

text \<open>
  C3, as stated: in the published snapshot
  \<open>grid_power = campus_load - total_generation - battery_power\<close>. It fails on the sample
  reading with the draws 0.504 for solar and 0.5075 for load: load becomes 342.76 and
  total generation 409.34, so grid power is 342.76 - 409.34 - 25.2 = -91.78, published as
  -91.8, while the published load 342.8, total 409.3 and battery power 25.2 give -91.7.
\<close>

theorem grid_power_rounded_counterexample:
  "\<not> (grid_power (simulateRealTimeData CONFIG
          \<lparr> r_solar = 0.504, r_wind = 0.5, r_load = 0.5075, r_battery = 0.5,
            r_temperature = 0.5, r_wind_speed = 0.5, r_irradiance = 0.5 \<rparr>
          ''2025-09-27T11:03:05.000Z'' current_status)
      = campus_load (simulateRealTimeData CONFIG
          \<lparr> r_solar = 0.504, r_wind = 0.5, r_load = 0.5075, r_battery = 0.5,
            r_temperature = 0.5, r_wind_speed = 0.5, r_irradiance = 0.5 \<rparr>
          ''2025-09-27T11:03:05.000Z'' current_status)
        - total_generation (simulateRealTimeData CONFIG
          \<lparr> r_solar = 0.504, r_wind = 0.5, r_load = 0.5075, r_battery = 0.5,
            r_temperature = 0.5, r_wind_speed = 0.5, r_irradiance = 0.5 \<rparr>
          ''2025-09-27T11:03:05.000Z'' current_status)
        - battery_power (simulateRealTimeData CONFIG
          \<lparr> r_solar = 0.504, r_wind = 0.5, r_load = 0.5075, r_battery = 0.5,
            r_temperature = 0.5, r_wind_speed = 0.5, r_irradiance = 0.5 \<rparr>
          ''2025-09-27T11:03:05.000Z'' current_status))"
  by (simp add: simulateRealTimeData_def rounded_fields updated_fields clamp_def
        formatNumber_def CONFIG_def current_status_def)

text \<open>
  C3, amended: for every previous snapshot, configuration and random draws, grid power is
  campus load minus total generation minus battery power exactly before the rounding
  step, computed from the freshly clamped load and generation and the unchanged battery
  power; the published grid power is that difference rounded to one decimal place, and it
  differs from the same expression over the published fields by at most 0.2.
\<close>

theorem grid_power_balance:
  "grid_power (simulate_updated cfg rnd now st) =
     campus_load (simulate_updated cfg rnd now st)
       - total_generation (simulate_updated cfg rnd now st)
       - battery_power (simulate_updated cfg rnd now st)
   \<and> grid_power (simulateRealTimeData cfg rnd now st) =
       formatNumber (campus_load (simulate_updated cfg rnd now st)
                     - total_generation (simulate_updated cfg rnd now st)
                     - battery_power st)
   \<and> \<bar>grid_power (simulateRealTimeData cfg rnd now st)
        - (campus_load (simulateRealTimeData cfg rnd now st)
           - total_generation (simulateRealTimeData cfg rnd now st)
           - battery_power (simulateRealTimeData cfg rnd now st))\<bar> \<le> 2 / 10"
  unfolding simulateRealTimeData_def rounded_fields updated_fields(9,11)
  using formatNumber_sub3 by simp

text \<open>
  C10: for every previous snapshot, configuration and random draws, battery power and
  cloud cover are copied unchanged before the rounding step, so the published values are
  the previous ones rounded to one decimal place and do not depend on the draws, while
  temperature, wind speed and irradiance are the previous value plus a random delta,
  clamped and rounded.
\<close>

theorem battery_power_cloud_cover_unperturbed:
  "battery_power (simulate_updated cfg rnd now st) = battery_power st
   \<and> cloud_cover (weather (simulate_updated cfg rnd now st)) = cloud_cover (weather st)
   \<and> battery_power (simulateRealTimeData cfg rnd now st) = formatNumber (battery_power st)
   \<and> cloud_cover (weather (simulateRealTimeData cfg rnd now st))
       = formatNumber (cloud_cover (weather st))
   \<and> temperature (weather (simulateRealTimeData cfg rnd now st))
       = formatNumber (clamp (temperature (weather st)
           + (r_temperature rnd - 0.5) * temperature_variation (simulation cfg)) 25 40)
   \<and> wind_speed (weather (simulateRealTimeData cfg rnd now st))
       = formatNumber (clamp (wind_speed (weather st)
           + (r_wind_speed rnd - 0.5) * wind_speed_variation (simulation cfg)) 0 15)
   \<and> irradiance (weather (simulateRealTimeData cfg rnd now st))
       = formatNumber (clamp (irradiance (weather st)
           + (r_irradiance rnd - 0.5) * irradiance_variation (simulation cfg)) 0 1000)"
  unfolding simulateRealTimeData_def rounded_fields updated_fields by simp

section \<open>The state manager\<close>

lemma forEach_all:
  "\<forall>c \<in> set cbs. \<not> raises c v \<Longrightarrow> forEach raises cbs v = (map (\<lambda>c. (c, v)) cbs, Normal)"
  by (induction cbs) simp_all

lemma forEach_stops:
  "\<forall>p \<in> set pre. \<not> raises p v \<Longrightarrow> raises c v \<Longrightarrow>
   forEach raises (pre @ c # post) v = (map (\<lambda>c. (c, v)) (pre @ [c]), Thrown (CallbackError c))"
  by (induction pre) simp_all

lemma forEach_prefix:
  "\<exists>n. fst (forEach raises cbs v) = map (\<lambda>c. (c, v)) (take n cbs)"
proof (induction cbs)
  case Nil
  then show ?case by simp
next
  case (Cons c cs)
  then obtain n where n: "fst (forEach raises cs v) = map (\<lambda>c. (c, v)) (take n cs)" by blast
  show ?case
  proof (cases "raises c v")
    case True
    then have "fst (forEach raises (c # cs) v) = map (\<lambda>c. (c, v)) (take 1 (c # cs))" by simp
    then show ?thesis by blast
  next
    case False
    then have "fst (forEach raises (c # cs) v) = map (\<lambda>c. (c, v)) (take (Suc n) (c # cs))"
      using n by (cases "forEach raises cs v") simp
    then show ?thesis by blast
  qed
qed

lemma notify_eq:
  "notify raises sm key v =
     (if listeners sm key = None \<and> inherited_key key then ([], Thrown TypeError)
      else forEach raises (subscribers sm key) v)"
  by (simp add: notify_def subscribers_def split: option.splits)

lemma listeners_assign_state [simp]:
  "listeners (assign_state typeOf sm key v) = listeners sm"
  by (simp add: assign_state_def split: jstype.splits)

lemma subscribers_state_update [simp]:
  "subscribers (sm\<lparr> state := s \<rparr>) key = subscribers sm key"
  by (simp add: subscribers_def)

lemma subscribers_assign_state [simp]:
  "subscribers (assign_state typeOf sm key v) k = subscribers sm k"
  by (simp add: subscribers_def)

lemma assign_state_plain:
  "key \<noteq> ''__proto__'' \<Longrightarrow>
   assign_state typeOf sm key v = sm\<lparr> state := (state sm)(key \<mapsto> v) \<rparr>"
  by (simp add: assign_state_def)

lemma get_assign_state_same:
  "key \<noteq> ''__proto__'' \<Longrightarrow> get (assign_state typeOf sm key v) key = Value v"
  by (simp add: assign_state_plain get_def)

lemma get_assign_state_other:
  "key \<noteq> ''__proto__'' \<Longrightarrow> k \<noteq> key \<Longrightarrow> get (assign_state typeOf sm key v) k = get sm k"
  by (simp add: assign_state_plain get_def split: option.splits)

lemma set_key_eq:
  "set_key typeOf raises sm key v =
     (assign_state typeOf sm key v,
      if listeners sm key = None \<and> inherited_key key then ([], Thrown TypeError)
      else forEach raises (subscribers sm key) v)"
  by (simp add: set_key_def Let_def notify_eq)

lemma subscribe_eq:
  "subscribe sm key cb =
     (if listeners sm key = None \<and> inherited_key key then Inl TypeError
      else Inr (sm\<lparr> listeners := (listeners sm)(key \<mapsto> subscribers sm key @ [cb]) \<rparr>,
                unsubscribe key cb))"
  by (simp add: subscribe_def subscribers_def Let_def split: option.splits)

lemma ordinary_keys:
  "\<not> inherited_key ''loading''" "\<not> inherited_key ''error''"
  "\<not> inherited_key ''alerts''" "\<not> inherited_key ''isAuthenticated''"
  "\<not> inherited_key ''user''" "\<not> inherited_key ''historicalData''"
  by (simp_all add: inherited_key_def Object_prototype_functions_def)

lemma inherited_keys:
  "inherited_key ''constructor''" "inherited_key ''__proto__''"
  by (simp_all add: inherited_key_def Object_prototype_functions_def)

lemma not_inherited_key: "\<not> inherited_key key \<Longrightarrow> key \<noteq> ''__proto__''"
  by (auto simp: inherited_key_def)

lemma forEach_first_raise:
  assumes "\<exists>c \<in> set cbs. raises c v"
  shows "\<exists>pre c post. cbs = pre @ c # post \<and> (\<forall>p \<in> set pre. \<not> raises p v) \<and> raises c v
           \<and> forEach raises cbs v = (map (\<lambda>c. (c, v)) (pre @ [c]), Thrown (CallbackError c))"
proof -
  obtain pre c post where s: "cbs = pre @ c # post" "raises c v" "\<forall>p \<in> set pre. \<not> raises p v"
    using split_list_first_prop [OF assms] by blast
  then have "forEach raises cbs v = (map (\<lambda>c. (c, v)) (pre @ [c]), Thrown (CallbackError c))"
    using forEach_stops [of pre raises v c post] by simp
  with s show ?thesis by blast
qed

text \<open>
  C5, as stated: for every key and value, \<open>set\<close> calls all the callbacks subscribed to
  the key and a \<open>get\<close> afterwards returns the value. With callbacks 1 and 2 subscribed to
  \<open>loading\<close> and callback 1 throwing, callback 2 is not called. At the key \<open>constructor\<close>,
  which names a member of \<open>Object.prototype\<close>, \<open>set\<close> ends with a TypeError. At the key
  \<open>__proto__\<close> the value \<open>true\<close> is not stored and \<open>get\<close> returns \<open>Object.prototype\<close>.
\<close>

theorem set_key_all_keys_counterexample:
  "snd (set_key jsvalue_type (raises_only 1)
          (run jsvalue_type never_raises [Subscribe ''loading'' 1, Subscribe ''loading'' 2]
             stateManager)
          ''loading'' (Bool False))
     = ([(1, Bool False)], Thrown (CallbackError 1))
   \<and> (2, Bool False)
       \<notin> set (fst (snd (set_key jsvalue_type (raises_only 1)
          (run jsvalue_type never_raises [Subscribe ''loading'' 1, Subscribe ''loading'' 2]
             stateManager)
          ''loading'' (Bool False))))
   \<and> snd (set_key jsvalue_type never_raises stateManager ''constructor'' (Bool True))
     = ([], Thrown TypeError)
   \<and> get (fst (set_key jsvalue_type never_raises stateManager ''__proto__'' (Bool True)))
        ''__proto__'' = The_Object_prototype
   \<and> get (fst (set_key jsvalue_type never_raises stateManager ''__proto__'' (Bool True)))
        ''__proto__'' \<noteq> Value (Bool True)"
  by (simp add: set_key_eq subscribe_eq subscribers_def stateManager_def raises_only_def
        run_def ordinary_keys inherited_keys assign_state_def get_def
        initialState_def)

text \<open>
  C5, amended: for every key that names no member of \<open>Object.prototype\<close> and every
  value, whatever the callbacks do, \<open>get(key)\<close> after \<open>set(key, value)\<close> returns the
  value, every other key reads as before and the subscriptions are unchanged; the calls
  made are calls of the callbacks subscribed to that key, with the new value, in
  subscription order from the first one on; when none of them throws, all of them are
  called and \<open>set\<close> returns normally; when one throws, they are called up to and including
  the first one that throws, and \<open>set\<close> ends with its exception.
\<close>

theorem set_key_notifies_subscribers:
  assumes "\<not> inherited_key key"
  shows "get (fst (set_key typeOf raises sm key v)) key = Value v
   \<and> (\<forall>k. k \<noteq> key \<longrightarrow> get (fst (set_key typeOf raises sm key v)) k = get sm k)
   \<and> listeners (fst (set_key typeOf raises sm key v)) = listeners sm
   \<and> (\<exists>n. fst (snd (set_key typeOf raises sm key v))
             = map (\<lambda>c. (c, v)) (take n (subscribers sm key)))
   \<and> ((\<forall>c \<in> set (subscribers sm key). \<not> raises c v) \<longrightarrow>
        snd (set_key typeOf raises sm key v)
          = (map (\<lambda>c. (c, v)) (subscribers sm key), Normal))
   \<and> ((\<exists>c \<in> set (subscribers sm key). raises c v) \<longrightarrow>
        (\<exists>pre c post. subscribers sm key = pre @ c # post
           \<and> (\<forall>p \<in> set pre. \<not> raises p v) \<and> raises c v
           \<and> snd (set_key typeOf raises sm key v)
               = (map (\<lambda>c. (c, v)) (pre @ [c]), Thrown (CallbackError c))))"
proof -
  have k: "key \<noteq> ''__proto__''" using assms by (rule not_inherited_key)
  have s: "set_key typeOf raises sm key v
      = (assign_state typeOf sm key v, forEach raises (subscribers sm key) v)"
    using assms by (simp add: set_key_eq)
  have 1: "get (fst (set_key typeOf raises sm key v)) key = Value v"
    by (simp add: s get_assign_state_same [OF k])
  have 2: "\<forall>k. k \<noteq> key \<longrightarrow> get (fst (set_key typeOf raises sm key v)) k = get sm k"
    by (simp add: s get_assign_state_other [OF k])
  have 3: "listeners (fst (set_key typeOf raises sm key v)) = listeners sm"
    by (simp add: s)
  have 4: "\<exists>n. fst (snd (set_key typeOf raises sm key v))
             = map (\<lambda>c. (c, v)) (take n (subscribers sm key))"
    using forEach_prefix [of raises "subscribers sm key" v] by (simp add: s)
  have 5: "snd (set_key typeOf raises sm key v)
          = (map (\<lambda>c. (c, v)) (subscribers sm key), Normal)"
    if "\<forall>c \<in> set (subscribers sm key). \<not> raises c v"
    using that by (simp add: s forEach_all)
  have 6: "\<exists>pre c post. subscribers sm key = pre @ c # post
           \<and> (\<forall>p \<in> set pre. \<not> raises p v) \<and> raises c v
           \<and> snd (set_key typeOf raises sm key v)
               = (map (\<lambda>c. (c, v)) (pre @ [c]), Thrown (CallbackError c))"
    if "\<exists>c \<in> set (subscribers sm key). raises c v"
    using that forEach_first_raise [of "subscribers sm key" raises v] by (simp add: s)
  from 1 2 3 4 5 6 show ?thesis by blast
qed

text \<open>
  Three subscriptions, two of them to \<open>loading\<close>: \<open>set('loading', false)\<close> calls
  callbacks 1 and 3 in that order, not callback 2 of \<open>error\<close>; when callback 1 throws,
  it is the only one called, and the value is stored all the same.
\<close>

theorem set_key_notifies_witness:
  "\<not> inherited_key ''loading''
   \<and> get (fst (set_key jsvalue_type never_raises
        (run jsvalue_type never_raises
           [Subscribe ''loading'' 1, Subscribe ''error'' 2, Subscribe ''loading'' 3] stateManager)
        ''loading'' (Bool False))) ''loading'' = Value (Bool False)
   \<and> get (fst (set_key jsvalue_type never_raises
        (run jsvalue_type never_raises
           [Subscribe ''loading'' 1, Subscribe ''error'' 2, Subscribe ''loading'' 3] stateManager)
        ''loading'' (Bool False))) ''error'' = Value Null
   \<and> snd (set_key jsvalue_type never_raises
        (run jsvalue_type never_raises
           [Subscribe ''loading'' 1, Subscribe ''error'' 2, Subscribe ''loading'' 3] stateManager)
        ''loading'' (Bool False)) = ([(1, Bool False), (3, Bool False)], Normal)
   \<and> snd (set_key jsvalue_type (raises_only 1)
        (run jsvalue_type never_raises
           [Subscribe ''loading'' 1, Subscribe ''error'' 2, Subscribe ''loading'' 3] stateManager)
        ''loading'' (Bool False)) = ([(1, Bool False)], Thrown (CallbackError 1))
   \<and> get (fst (set_key jsvalue_type (raises_only 1)
        (run jsvalue_type never_raises
           [Subscribe ''loading'' 1, Subscribe ''error'' 2, Subscribe ''loading'' 3] stateManager)
        ''loading'' (Bool False))) ''loading'' = Value (Bool False)"
proof -
  have h: "\<not> inherited_key ''loading''"
    by (rule ordinary_keys)
  show ?thesis
    using h
      set_key_notifies_subscribers [OF h, of jsvalue_type never_raises
        "run jsvalue_type never_raises
           [Subscribe ''loading'' 1, Subscribe ''error'' 2, Subscribe ''loading'' 3] stateManager"
        "Bool False"]
      set_key_notifies_subscribers [OF h, of jsvalue_type "raises_only 1"
        "run jsvalue_type never_raises
           [Subscribe ''loading'' 1, Subscribe ''error'' 2, Subscribe ''loading'' 3] stateManager"
        "Bool False"]
    by (simp add: set_key_eq subscribe_eq subscribers_def stateManager_def initialState_def
          never_raises_def raises_only_def get_def run_def ordinary_keys inherited_keys assign_state_def)
qed

lemma subscribe_inherited_key:
  "listeners sm key = None \<Longrightarrow> inherited_key key \<Longrightarrow> subscribe sm key cb = Inl TypeError"
  by (simp add: subscribe_eq)

lemma apply_operation_keeps_out:
  assumes "cb \<notin> set (subscribers sm key)" "op \<noteq> Subscribe key cb"
  shows "cb \<notin> set (subscribers (apply_operation typeOf raises sm op) key)"
proof (cases op)
  case (Set k v)
  then show ?thesis using assms(1) by (simp add: set_key_eq)
next
  case (Subscribe k c)
  then show ?thesis using assms by (auto simp: subscribe_eq subscribers_def)
next
  case (Unsubscribe k c)
  then show ?thesis using assms(1)
    by (auto simp: unsubscribe_def subscribers_def split: option.splits)
qed

lemma run_keeps_out:
  "cb \<notin> set (subscribers sm key) \<Longrightarrow> Subscribe key cb \<notin> set ops \<Longrightarrow>
   cb \<notin> set (subscribers (run typeOf raises ops sm) key)"
  unfolding run_def
proof (induction ops arbitrary: sm)
  case Nil
  then show ?case by simp
next
  case (Cons op ops)
  have "cb \<notin> set (subscribers (apply_operation typeOf raises sm op) key)"
    using Cons.prems by (intro apply_operation_keeps_out) auto
  then show ?case using Cons.IH Cons.prems(2) by simp
qed

lemma apply_operation_inherited_key:
  assumes "inherited_key key" "listeners sm key = None"
  shows "listeners (apply_operation typeOf raises sm op) key = None"
proof (cases op)
  case (Set k v)
  then show ?thesis using assms(2) by (simp add: set_key_eq)
next
  case (Subscribe k c)
  then show ?thesis using assms by (cases "k = key") (simp_all add: subscribe_eq)
next
  case (Unsubscribe k c)
  then show ?thesis using assms(2)
    by (cases "k = key") (simp_all add: unsubscribe_def split: option.splits)
qed

lemma run_inherited_key:
  "inherited_key key \<Longrightarrow> listeners sm key = None \<Longrightarrow>
   listeners (run typeOf raises ops sm) key = None"
  unfolding run_def
proof (induction ops arbitrary: sm)
  case Nil
  then show ?case by simp
next
  case (Cons op ops)
  have "listeners (apply_operation typeOf raises sm op) key = None"
    using Cons.prems by (rule apply_operation_inherited_key)
  then show ?case using Cons.IH Cons.prems(1) by simp
qed

lemma set_key_calls_subscribers:
  assumes "call \<in> set (fst (snd (set_key typeOf raises sm key v)))"
  shows "fst call \<in> set (subscribers sm key)"
proof -
  obtain n where "fst (forEach raises (subscribers sm key) v)
      = map (\<lambda>c. (c, v)) (take n (subscribers sm key))"
    using forEach_prefix [of raises "subscribers sm key" v] by blast
  then have "fst call \<in> set (take n (subscribers sm key))"
    using assms unfolding set_key_eq by (auto split: if_splits)
  then show ?thesis by (rule in_set_takeD)
qed

text \<open>
  C6: when \<open>subscribe(key, callback)\<close> returns, it has appended the callback to the
  key's list and returns a function which, called on any store in which the key has a
  list (as it has in every store after the \<open>subscribe\<close>), succeeds and removes that
  callback from the key's list, the other callbacks keeping their order and everything
  else unchanged; called again, it succeeds and changes nothing; and after any further
  operations that do not subscribe the callback to the key again, no \<open>set(key, v)\<close> calls
  it.
\<close>

theorem unsubscribe_removes_callback:
  assumes "subscribe sm key cb = Inr (sm1, unsub)"
  shows "subscribers sm1 key = subscribers sm key @ [cb]
    \<and> (\<forall>s cbs. listeners s key = Some cbs \<longrightarrow>
          (\<exists>s'. unsub s = Inr s'
             \<and> s' = s\<lparr> listeners := (listeners s)(key \<mapsto> filter (\<lambda>l. l \<noteq> cb) cbs) \<rparr>
             \<and> unsub s' = Inr s'
             \<and> (\<forall>typeOf raises ops v. Subscribe key cb \<notin> set ops \<longrightarrow>
                  (\<forall>call \<in> set (fst (snd (set_key typeOf raises
                                                (run typeOf raises ops s') key v))).
                     fst call \<noteq> cb))))"
proof -
  have sm1: "sm1 = sm\<lparr> listeners := (listeners sm)(key \<mapsto> subscribers sm key @ [cb]) \<rparr>"
    and unsub: "unsub = unsubscribe key cb"
    using assms by (simp_all add: subscribe_eq split: if_splits)
  have a: "subscribers sm1 key = subscribers sm key @ [cb]"
    by (simp add: sm1 subscribers_def)
  have b: "\<exists>s'. unsub s = Inr s'
             \<and> s' = s\<lparr> listeners := (listeners s)(key \<mapsto> filter (\<lambda>l. l \<noteq> cb) cbs) \<rparr>
             \<and> unsub s' = Inr s'
             \<and> (\<forall>typeOf raises ops v. Subscribe key cb \<notin> set ops \<longrightarrow>
                  (\<forall>call \<in> set (fst (snd (set_key typeOf raises
                                                (run typeOf raises ops s') key v))).
                     fst call \<noteq> cb))"
    if s: "listeners s key = Some cbs" for s :: "'a StateManager" and cbs
  proof -
    define s' where "s' = s\<lparr> listeners := (listeners s)(key \<mapsto> filter (\<lambda>l. l \<noteq> cb) cbs) \<rparr>"
    have 1: "unsub s = Inr s'" by (simp add: unsub unsubscribe_def s s'_def)
    have 2: "unsub s' = Inr s'" by (simp add: unsub unsubscribe_def s'_def)
    have out: "cb \<notin> set (subscribers s' key)"
      by (simp add: s'_def subscribers_def)
    have 3: "fst call \<noteq> cb"
      if "Subscribe key cb \<notin> set ops"
        and "call \<in> set (fst (snd (set_key typeOf raises (run typeOf raises ops s') key v)))"
      for typeOf raises ops and v :: 'a and call
      using run_keeps_out [OF out that(1), of typeOf raises]
        set_key_calls_subscribers [OF that(2)]
      by auto
    show ?thesis using 1 2 3 s'_def by blast
  qed
  show ?thesis using a b by blast
qed

text \<open>
  Callback 7 subscribes to \<open>alerts\<close> after callback 3: unsubscribing it gives back the
  store as it was before, unsubscribing again changes nothing, and a later \<open>set\<close> on
  \<open>alerts\<close> calls callbacks 3 and 5 only.
\<close>

theorem unsubscribe_removes_witness:
  "subscribe (run jsvalue_type never_raises [Subscribe ''alerts'' 3] stateManager) ''alerts'' 7
     = Inr (run jsvalue_type never_raises [Subscribe ''alerts'' 3, Subscribe ''alerts'' 7]
              stateManager,
            unsubscribe ''alerts'' 7)
   \<and> subscribers (run jsvalue_type never_raises [Subscribe ''alerts'' 3, Subscribe ''alerts'' 7]
                    stateManager) ''alerts''
       = [3, 7]
   \<and> unsubscribe ''alerts'' 7
        (run jsvalue_type never_raises [Subscribe ''alerts'' 3, Subscribe ''alerts'' 7]
           stateManager)
       = Inr (run jsvalue_type never_raises [Subscribe ''alerts'' 3] stateManager)
   \<and> unsubscribe ''alerts'' 7 (run jsvalue_type never_raises [Subscribe ''alerts'' 3] stateManager)
       = Inr (run jsvalue_type never_raises [Subscribe ''alerts'' 3] stateManager)
   \<and> fst (snd (set_key jsvalue_type never_raises
        (run jsvalue_type never_raises [Set ''loading'' (Bool False), Subscribe ''alerts'' 5]
           (run jsvalue_type never_raises [Subscribe ''alerts'' 3] stateManager))
        ''alerts'' (Arr []))) = [(3, Arr []), (5, Arr [])]"
proof -
  have h: "subscribe (run jsvalue_type never_raises [Subscribe ''alerts'' 3] stateManager)
        ''alerts'' 7
     = Inr (run jsvalue_type never_raises [Subscribe ''alerts'' 3, Subscribe ''alerts'' 7]
              stateManager,
            unsubscribe ''alerts'' 7)"
    by (simp add: subscribe_eq run_def subscribers_def stateManager_def ordinary_keys inherited_keys)
  show ?thesis
    using h unsubscribe_removes_callback [OF h]
    by (simp add: subscribe_eq subscribers_def stateManager_def unsubscribe_def run_def
          set_key_eq never_raises_def ordinary_keys inherited_keys
          assign_state_def)
qed

text \<open>
  C7, as stated: when a callback throws, the later callbacks of the same notification are
  still called and \<open>set\<close> does not fail. With callbacks 1 and 2 subscribed to \<open>error\<close>
  and callback 1 throwing, \<open>set\<close> calls callback 1 only and ends with its exception.
\<close>

theorem notify_isolation_counterexample:
  "snd (set_key jsvalue_type (raises_only 1)
          (run jsvalue_type never_raises [Subscribe ''error'' 1, Subscribe ''error'' 2]
             stateManager)
          ''error'' (Str ''Failed to load initial data''))
     = ([(1, Str ''Failed to load initial data'')], Thrown (CallbackError 1))
   \<and> (2, Str ''Failed to load initial data'')
       \<notin> set (fst (snd (set_key jsvalue_type (raises_only 1)
          (run jsvalue_type never_raises [Subscribe ''error'' 1, Subscribe ''error'' 2]
             stateManager)
          ''error'' (Str ''Failed to load initial data''))))
   \<and> snd (snd (set_key jsvalue_type (raises_only 1)
          (run jsvalue_type never_raises [Subscribe ''error'' 1, Subscribe ''error'' 2]
             stateManager)
          ''error'' (Str ''Failed to load initial data''))) \<noteq> Normal"
  by (simp add: set_key_eq subscribe_eq subscribers_def stateManager_def raises_only_def
        run_def ordinary_keys inherited_keys)

text \<open>
  C7, amended: when the callbacks subscribed to the key before callback \<open>c\<close> do not throw
  on the value and \<open>c\<close> does, \<open>set(key, v)\<close> makes the assignment, calls those callbacks
  and then \<open>c\<close>, in subscription order, calls no callback subscribed after \<open>c\<close>, and ends
  with the exception of \<open>c\<close>. The assignment stores the value under the key, and a \<open>get\<close>
  afterwards returns it, at every key but \<open>__proto__\<close> (to which nothing can subscribe).
\<close>

theorem notify_stops_at_raising_callback:
  assumes "listeners sm key = Some (pre @ c # post)"
    and "\<forall>p \<in> set pre. \<not> raises p v" and "raises c v"
  shows "set_key typeOf raises sm key v =
           (assign_state typeOf sm key v,
            map (\<lambda>c. (c, v)) (pre @ [c]),
            Thrown (CallbackError c))
    \<and> (key \<noteq> ''__proto__'' \<longrightarrow>
         assign_state typeOf sm key v = sm\<lparr> state := (state sm)(key \<mapsto> v) \<rparr>
         \<and> get (fst (set_key typeOf raises sm key v)) key = Value v)"
proof -
  have "subscribers sm key = pre @ c # post" using assms(1) by (simp add: subscribers_def)
  then have "set_key typeOf raises sm key v =
           (assign_state typeOf sm key v,
            map (\<lambda>c. (c, v)) (pre @ [c]),
            Thrown (CallbackError c))"
    unfolding set_key_eq
    using forEach_stops [of pre raises v c post] assms by simp
  then show ?thesis by (simp add: assign_state_plain get_def)
qed

text \<open>
  Callbacks 1, 2 and 3 subscribed to \<open>error\<close>, callback 2 throwing: callbacks 1 and 2 are
  called, callback 3 is not, and the value is stored.
\<close>

theorem notify_stops_witness:
  "listeners (run jsvalue_type never_raises
                [Subscribe ''error'' 1, Subscribe ''error'' 2, Subscribe ''error'' 3]
                stateManager) ''error'' = Some ([1] @ 2 # [3])
   \<and> \<not> raises_only 2 1 (Str ''Failed to load initial data'')
   \<and> raises_only 2 2 (Str ''Failed to load initial data'')
   \<and> snd (set_key jsvalue_type (raises_only 2)
        (run jsvalue_type never_raises
           [Subscribe ''error'' 1, Subscribe ''error'' 2, Subscribe ''error'' 3] stateManager)
        ''error'' (Str ''Failed to load initial data''))
      = ([(1, Str ''Failed to load initial data''), (2, Str ''Failed to load initial data'')],
         Thrown (CallbackError 2))
   \<and> get (fst (set_key jsvalue_type (raises_only 2)
        (run jsvalue_type never_raises
           [Subscribe ''error'' 1, Subscribe ''error'' 2, Subscribe ''error'' 3] stateManager)
        ''error'' (Str ''Failed to load initial data''))) ''error''
      = Value (Str ''Failed to load initial data'')"
  using notify_stops_at_raising_callback
    [of "run jsvalue_type never_raises
           [Subscribe ''error'' 1, Subscribe ''error'' 2, Subscribe ''error'' 3] stateManager"
        "''error''" "[1]" 2 "[3]" "raises_only 2" "Str ''Failed to load initial data''"
        jsvalue_type]
  by (simp add: subscribe_eq subscribers_def stateManager_def raises_only_def get_def run_def
        ordinary_keys inherited_keys set_key_eq assign_state_def)

section \<open>The history\<close>

lemma add_one:
  assumes "get sm ''historicalData'' = Value (Arr h)" "maxPoints cfg = Some m"
  shows "get (fst (addHistoricalDataPoint raises cfg t s sm)) ''historicalData''
     = Value (Arr (if int (length h) + 1 > m then tl (h @ [toPoint (t, s)])
                   else h @ [toPoint (t, s)]))"
  using assms
  by (simp add: addHistoricalDataPoint_def Let_def updateHistoricalData_def set_key_eq
        get_assign_state_same toPoint_def)

lemma addAll_general:
  assumes "maxPoints cfg = Some m" "0 \<le> m"
  shows "get sm ''historicalData'' = Value (Arr h) \<Longrightarrow> length h \<le> nat m \<Longrightarrow>
    get (addAll raises cfg ps sm) ''historicalData''
      = Value (Arr (drop (length h + length ps - nat m) (h @ map toPoint ps)))"
proof (induction ps arbitrary: sm h)
  case Nil
  then show ?case by simp
next
  case (Cons p ps)
  obtain t s where p: "p = (t, s)" by (cases p)
  define h1 where
    "h1 = (if int (length h) + 1 > m then tl (h @ [toPoint (t, s)]) else h @ [toPoint (t, s)])"
  define sm1 where "sm1 = fst (addHistoricalDataPoint raises cfg t s sm)"
  have g1: "get sm1 ''historicalData'' = Value (Arr h1)"
    unfolding sm1_def h1_def using add_one [OF Cons.prems(1) assms(1)] .
  have len1: "length h1 \<le> nat m"
    using Cons.prems(2) assms(2) by (auto simp: h1_def)
  have IH: "get (addAll raises cfg ps sm1) ''historicalData''
      = Value (Arr (drop (length h1 + length ps - nat m) (h1 @ map toPoint ps)))"
    using Cons.IH [OF g1 len1] .
  have "drop (length h1 + length ps - nat m) (h1 @ map toPoint ps)
      = drop (length h + length (p # ps) - nat m) (h @ map toPoint (p # ps))"
  proof (cases "int (length h) + 1 > m")
    case True
    then have lh: "length h = nat m" using Cons.prems(2) assms(2) by linarith
    have h1: "h1 = tl (h @ [toPoint (t, s)])" using True by (simp add: h1_def)
    have tl_eq: "h1 @ map toPoint ps = tl (h @ map toPoint (p # ps))"
      by (cases h) (simp_all add: h1 p)
    have e1: "length h1 + length ps - nat m = length ps" using lh by (simp add: h1)
    have e2: "length h + length (p # ps) - nat m = Suc (length ps)" using lh by simp
    show ?thesis unfolding e1 e2 tl_eq by (simp only: drop_Suc)
  next
    case False
    then have "h1 = h @ [toPoint (t, s)]" by (simp add: h1_def)
    then show ?thesis by (simp add: p)
  qed
  then show ?case using IH by (simp add: p sm1_def)
qed

lemma maxPoints_CONFIG: "maxPoints CONFIG = Some 17280"
  by (simp add: maxPoints_def CONFIG_def)

lemma maxPoints_positive_interval:
  assumes "0 < UPDATE_INTERVAL cfg"
  shows "\<exists>m. maxPoints cfg = Some m \<and> 0 \<le> m"
  using assms by (simp add: maxPoints_def)

text \<open>
  C4: starting from an empty history, with a capacity \<open>maxPoints\<close> of \<open>m \<ge> 0\<close>, after
  any sequence of \<open>addHistoricalDataPoint\<close> calls the store holds under
  \<open>historicalData\<close> the last \<open>m\<close> of the points appended, in insertion order (all of
  them while there are no more than \<open>m\<close>): its length is at most \<open>m\<close>, and once more than
  \<open>m > 0\<close> points were appended its first entry is the one appended at index
  \<open>count - m\<close>, counting from 0.
\<close>

theorem history_bounded_in_order:
  assumes "get sm ''historicalData'' = Value (Arr [])" and "maxPoints cfg = Some m"
    and "0 \<le> m"
  shows "\<exists>h. get (addAll raises cfg ps sm) ''historicalData'' = Value (Arr h)
     \<and> h = drop (length ps - nat m) (map toPoint ps)
     \<and> int (length h) \<le> m
     \<and> (int (length ps) > m \<and> 0 < m \<longrightarrow> hd h = toPoint (ps ! (length ps - nat m)))"
proof -
  have g: "get (addAll raises cfg ps sm) ''historicalData''
      = Value (Arr (drop (length ps - nat m) (map toPoint ps)))"
    using addAll_general [OF assms(2,3) assms(1), of raises ps] by simp
  have l: "int (length (drop (length ps - nat m) (map toPoint ps))) \<le> m"
    using assms(3) by simp
  have "hd (drop (length ps - nat m) (map toPoint ps)) = toPoint (ps ! (length ps - nat m))"
    if "int (length ps) > m" "0 < m"
  proof -
    have "length ps - nat m < length ps" using that by linarith
    then show ?thesis by (simp add: hd_drop_conv_nth)
  qed
  with g l show ?thesis by blast
qed

text \<open>
  An update interval of 8 hours gives the capacity 3; four points appended in order to
  the initial store leave the second, third and fourth.
\<close>

theorem history_capacity_three_witness:
  "get stateManager ''historicalData'' = Value (Arr [])
   \<and> maxPoints (CONFIG\<lparr> UPDATE_INTERVAL := 28800000 \<rparr>) = Some 3
   \<and> get (addAll never_raises (CONFIG\<lparr> UPDATE_INTERVAL := 28800000 \<rparr>)
        [(''00:00'', current_status\<lparr> solar_generation := 0 \<rparr>),
         (''08:00'', current_status\<lparr> solar_generation := 125 \<rparr>),
         (''16:00'', current_status\<lparr> solar_generation := 385 \<rparr>),
         (''00:00'', current_status\<lparr> solar_generation := 1 \<rparr>)]
        stateManager) ''historicalData''
     = Value (Arr
        [toPoint (''08:00'', current_status\<lparr> solar_generation := 125 \<rparr>),
         toPoint (''16:00'', current_status\<lparr> solar_generation := 385 \<rparr>),
         toPoint (''00:00'', current_status\<lparr> solar_generation := 1 \<rparr>)])"
proof -
  have h1: "get stateManager ''historicalData'' = Value (Arr [])"
    by (simp add: get_def stateManager_def initialState_def)
  have h2: "maxPoints (CONFIG\<lparr> UPDATE_INTERVAL := 28800000 \<rparr>) = Some 3"
    by (simp add: maxPoints_def CONFIG_def)
  have h3: "(0::int) \<le> 3" by simp
  show ?thesis
    using h1 h2 history_bounded_in_order [OF h1 h2 h3, of never_raises
        "[(''00:00'', current_status\<lparr> solar_generation := 0 \<rparr>),
         (''08:00'', current_status\<lparr> solar_generation := 125 \<rparr>),
         (''16:00'', current_status\<lparr> solar_generation := 385 \<rparr>),
         (''00:00'', current_status\<lparr> solar_generation := 1 \<rparr>)]"]
    by simp
qed

section \<open>Threshold alerts\<close>

lemma checkThresholds_eq:
  "checkThresholds str cfg t1 t2 st =
     (if battery_soc st < battery_low (thresholds cfg)
      then [\<lparr> type = ''warning'', message = battery_low_message str cfg,
               alert_timestamp = t1 \<rparr>]
      else [])
     @ (if campus_load st > load_high (thresholds cfg)
        then [\<lparr> type = ''warning'', message = load_high_message str cfg,
                 alert_timestamp = t2 \<rparr>]
        else [])"
  by (simp add: checkThresholds_def Let_def battery_low_message_def load_high_message_def)

lemma messages_differ: "battery_low_message str cfg \<noteq> load_high_message str cfg"
  by (simp add: battery_low_message_def load_high_message_def)

text \<open>
  C9, as stated: \<open>checkThresholds\<close> is a pure function of the snapshot and the
  thresholds. It is not: each alert carries the reading of the clock at its \<open>push\<close>, so
  two calls on the same snapshot with the same thresholds, five seconds apart, return
  different lists.
\<close>

theorem checkThresholds_pure_counterexample:
  "checkThresholds integer_toString CONFIG ''2025-09-27T11:03:05.000Z''
       ''2025-09-27T11:03:05.000Z'' (current_status\<lparr> battery_soc := 18.5 \<rparr>)
   \<noteq> checkThresholds integer_toString CONFIG ''2025-09-27T11:03:10.000Z''
       ''2025-09-27T11:03:10.000Z'' (current_status\<lparr> battery_soc := 18.5 \<rparr>)"
  by (simp add: checkThresholds_eq CONFIG_def current_status_def)

text \<open>
  C9, amended: for every snapshot and thresholds, the list \<open>checkThresholds\<close> returns
  holds exactly one battery alert when the battery SOC is below \<open>battery_low\<close> and none
  otherwise, exactly one load alert when the campus load is above \<open>load_high\<close> and none
  otherwise, and nothing else: every entry is a warning with one of the two messages, and
  the length is the number of violated rules. The function is not pure: a battery alert
  carries the clock reading \<open>t1\<close> and a load alert the clock reading \<open>t2\<close>; without the
  timestamps the result depends on the snapshot and the thresholds only.
\<close>

theorem checkThresholds_alerts:
  "length (filter (\<lambda>a. message a = battery_low_message str cfg)
             (checkThresholds str cfg t1 t2 st))
     = (if battery_soc st < battery_low (thresholds cfg) then 1 else 0)
   \<and> length (filter (\<lambda>a. message a = load_high_message str cfg)
               (checkThresholds str cfg t1 t2 st))
     = (if campus_load st > load_high (thresholds cfg) then 1 else 0)
   \<and> (\<forall>a \<in> set (checkThresholds str cfg t1 t2 st).
         type a = ''warning'' \<and>
         (message a = battery_low_message str cfg \<or> message a = load_high_message str cfg))
   \<and> length (checkThresholds str cfg t1 t2 st)
     = (if battery_soc st < battery_low (thresholds cfg) then 1 else 0)
       + (if campus_load st > load_high (thresholds cfg) then 1 else 0)
   \<and> (\<forall>a \<in> set (checkThresholds str cfg t1 t2 st).
         (message a = battery_low_message str cfg \<longrightarrow> alert_timestamp a = t1) \<and>
         (message a = load_high_message str cfg \<longrightarrow> alert_timestamp a = t2))
   \<and> map untimed (checkThresholds str cfg t1 t2 st)
     = map untimed (checkThresholds str cfg t1' t2' st)"
proof -
  have d: "battery_low_message str cfg \<noteq> load_high_message str cfg"
    "load_high_message str cfg \<noteq> battery_low_message str cfg"
    using messages_differ [of str cfg] by simp_all
  show ?thesis unfolding checkThresholds_eq using d by (simp add: untimed_def)
qed

text \<open>
  With \<open>battery_low = 20\<close>: a battery SOC of 18.5 gives exactly the battery alert, with
  the clock reading of the call, a battery SOC of 25 gives no alert, and a SOC of 18.5
  with a load of 412.3 gives both.
\<close>

theorem checkThresholds_witness:
  "checkThresholds integer_toString CONFIG ''2025-09-27T11:03:05.000Z''
       ''2025-09-27T11:03:05.001Z'' (current_status\<lparr> battery_soc := 18.5 \<rparr>)
     = [\<lparr> type = ''warning'', message = ''Battery SOC below 20% - consider charging'',
           alert_timestamp = ''2025-09-27T11:03:05.000Z'' \<rparr>]
   \<and> battery_low_message integer_toString CONFIG = ''Battery SOC below 20% - consider charging''
   \<and> length (filter (\<lambda>a. message a = battery_low_message integer_toString CONFIG)
        (checkThresholds integer_toString CONFIG ''2025-09-27T11:03:05.000Z''
           ''2025-09-27T11:03:05.001Z'' (current_status\<lparr> battery_soc := 18.5 \<rparr>))) = 1
   \<and> length (filter (\<lambda>a. message a = battery_low_message integer_toString CONFIG)
        (checkThresholds integer_toString CONFIG ''2025-09-27T11:03:05.000Z''
           ''2025-09-27T11:03:05.001Z'' (current_status\<lparr> battery_soc := 25 \<rparr>))) = 0
   \<and> checkThresholds integer_toString CONFIG ''2025-09-27T11:03:05.000Z''
       ''2025-09-27T11:03:05.001Z'' (current_status\<lparr> battery_soc := 25 \<rparr>) = []
   \<and> checkThresholds integer_toString CONFIG ''2025-09-27T11:03:05.000Z''
       ''2025-09-27T11:03:05.001Z''
       (current_status\<lparr> battery_soc := 18.5, campus_load := 412.3 \<rparr>)
     = [\<lparr> type = ''warning'', message = ''Battery SOC below 20% - consider charging'',
           alert_timestamp = ''2025-09-27T11:03:05.000Z'' \<rparr>,
        \<lparr> type = ''warning'',
           message = ''Campus load exceeding 400 kW - high demand detected'',
           alert_timestamp = ''2025-09-27T11:03:05.001Z'' \<rparr>]"
  using checkThresholds_alerts [of integer_toString CONFIG "''2025-09-27T11:03:05.000Z''"
             "''2025-09-27T11:03:05.001Z''" "current_status\<lparr> battery_soc := 18.5 \<rparr>"]
    checkThresholds_alerts [of integer_toString CONFIG "''2025-09-27T11:03:05.000Z''"
             "''2025-09-27T11:03:05.001Z''" "current_status\<lparr> battery_soc := 25 \<rparr>"]
  by (simp add: checkThresholds_eq battery_low_message_def load_high_message_def
        CONFIG_def current_status_def integer_toString_def)

section \<open>The mock authentication service\<close>

lemma loginUser_ok:
  assumes "\<forall>c \<in> set (subscribers sm ''isAuthenticated''). \<not> raises c (Bool True)"
    and "\<forall>c \<in> set (subscribers sm ''user''). \<not> raises c (UserObj u)"
  shows "loginUser raises sm u =
    (sm\<lparr> state := (state sm)(''isAuthenticated'' \<mapsto> Bool True, ''user'' \<mapsto> UserObj u) \<rparr>,
     map (\<lambda>c. (c, Bool True)) (subscribers sm ''isAuthenticated'')
       @ map (\<lambda>c. (c, UserObj u)) (subscribers sm ''user''),
     Normal)"
  using assms
  by (simp add: loginUser_def set_key_eq forEach_all assign_state_plain ordinary_keys inherited_keys)

text \<open>
  C8, as stated: \<open>login\<close> resolves with a user object if and only if the pair is
  \<open>admin\<close> / \<open>password\<close>. With that pair and a subscriber of \<open>isAuthenticated\<close> that
  throws, the exception leaves the timer callback before \<open>resolve\<close>: the promise never
  settles, the user is persisted in the session storage, \<open>isAuthenticated\<close> is true and
  \<open>user\<close> is still \<open>null\<close>.
\<close>

theorem login_resolves_counterexample:
  "snd (snd (login (raises_only 6) ''admin'' ''password''
       \<lparr> sessionStorage = Map.empty,
         store = run jsvalue_type never_raises [Subscribe ''isAuthenticated'' 6]
                   stateManager \<rparr>))
     = Unsettled (CallbackError 6)
   \<and> snd (snd (login (raises_only 6) ''admin'' ''password''
       \<lparr> sessionStorage = Map.empty,
         store = run jsvalue_type never_raises [Subscribe ''isAuthenticated'' 6]
                   stateManager \<rparr>))
     \<noteq> Resolved \<lparr> name = ''Admin User'', username = ''admin'' \<rparr>
   \<and> sessionStorage (fst (login (raises_only 6) ''admin'' ''password''
       \<lparr> sessionStorage = Map.empty,
         store = run jsvalue_type never_raises [Subscribe ''isAuthenticated'' 6]
                   stateManager \<rparr>)) ''authUser''
     = Some (JSON_stringify \<lparr> name = ''Admin User'', username = ''admin'' \<rparr>)
   \<and> get (store (fst (login (raises_only 6) ''admin'' ''password''
       \<lparr> sessionStorage = Map.empty,
         store = run jsvalue_type never_raises [Subscribe ''isAuthenticated'' 6]
                   stateManager \<rparr>))) ''isAuthenticated''
     = Value (Bool True)
   \<and> get (store (fst (login (raises_only 6) ''admin'' ''password''
       \<lparr> sessionStorage = Map.empty,
         store = run jsvalue_type never_raises [Subscribe ''isAuthenticated'' 6]
                   stateManager \<rparr>))) ''user''
     = Value Null"
  by (simp add: login_def loginUser_def set_key_eq subscribe_eq subscribers_def
        stateManager_def initialState_def raises_only_def run_def Let_def get_def
        ordinary_keys inherited_keys assign_state_def)

text \<open>
  C8, amended: \<open>login\<close> resolves only for the pair \<open>admin\<close> / \<open>password\<close>; for every other
  pair it rejects with the message "Invalid credentials. Try admin/password." and leaves
  the session storage and the store unchanged, calling no callback; for the pair
  \<open>admin\<close> / \<open>password\<close>, provided no subscriber of \<open>isAuthenticated\<close> or \<open>user\<close> throws,
  it resolves with the user, having persisted it under \<open>authUser\<close> and set
  \<open>isAuthenticated\<close> and \<open>user\<close> in the store.
\<close>

theorem login_accepts_one_pair:
  "((\<exists>u. snd (snd (login raises uname password w)) = Resolved u)
      \<longrightarrow> uname = ''admin'' \<and> password = ''password'')
   \<and> (\<not> (uname = ''admin'' \<and> password = ''password'') \<longrightarrow>
        login raises uname password w
          = (w, [], Rejected ''Invalid credentials. Try admin/password.''))
   \<and> (uname = ''admin'' \<and> password = ''password''
        \<and> (\<forall>c \<in> set (subscribers (store w) ''isAuthenticated''). \<not> raises c (Bool True))
        \<and> (\<forall>c \<in> set (subscribers (store w) ''user'').
              \<not> raises c (UserObj \<lparr> name = ''Admin User'', username = ''admin'' \<rparr>))
      \<longrightarrow> snd (snd (login raises uname password w))
            = Resolved \<lparr> name = ''Admin User'', username = ''admin'' \<rparr>
        \<and> sessionStorage (fst (login raises uname password w)) ''authUser''
            = Some (JSON_stringify \<lparr> name = ''Admin User'', username = ''admin'' \<rparr>)
        \<and> get (store (fst (login raises uname password w))) ''isAuthenticated''
            = Value (Bool True)
        \<and> get (store (fst (login raises uname password w))) ''user''
            = Value (UserObj \<lparr> name = ''Admin User'', username = ''admin'' \<rparr>))"
proof (intro conjI impI)
  assume "\<exists>u. snd (snd (login raises uname password w)) = Resolved u"
  then show "uname = ''admin''" "password = ''password''"
    by (auto simp: login_def split: if_splits)
next
  assume "\<not> (uname = ''admin'' \<and> password = ''password'')"
  then show "login raises uname password w
          = (w, [], Rejected ''Invalid credentials. Try admin/password.'')"
    by (auto simp: login_def)
next
  assume a: "uname = ''admin'' \<and> password = ''password''
        \<and> (\<forall>c \<in> set (subscribers (store w) ''isAuthenticated''). \<not> raises c (Bool True))
        \<and> (\<forall>c \<in> set (subscribers (store w) ''user'').
              \<not> raises c (UserObj \<lparr> name = ''Admin User'', username = ''admin'' \<rparr>))"
  then have l: "loginUser raises (store w) \<lparr> name = ''Admin User'', username = ''admin'' \<rparr> =
    ((store w)\<lparr> state := (state (store w))(''isAuthenticated'' \<mapsto> Bool True,
         ''user'' \<mapsto> UserObj \<lparr> name = ''Admin User'', username = ''admin'' \<rparr>) \<rparr>,
     map (\<lambda>c. (c, Bool True)) (subscribers (store w) ''isAuthenticated'')
       @ map (\<lambda>c. (c, UserObj \<lparr> name = ''Admin User'', username = ''admin'' \<rparr>))
           (subscribers (store w) ''user''),
     Normal)"
    by (intro loginUser_ok) simp_all
  show "snd (snd (login raises uname password w))
            = Resolved \<lparr> name = ''Admin User'', username = ''admin'' \<rparr>"
    using a by (simp add: login_def Let_def l)
  show "sessionStorage (fst (login raises uname password w)) ''authUser''
            = Some (JSON_stringify \<lparr> name = ''Admin User'', username = ''admin'' \<rparr>)"
    using a by (simp add: login_def Let_def l)
  show "get (store (fst (login raises uname password w))) ''isAuthenticated''
            = Value (Bool True)"
    using a by (simp add: login_def Let_def l get_def)
  show "get (store (fst (login raises uname password w))) ''user''
            = Value (UserObj \<lparr> name = ''Admin User'', username = ''admin'' \<rparr>)"
    using a by (simp add: login_def Let_def l get_def)
qed

text \<open>
  With one well-behaved subscriber of \<open>isAuthenticated\<close>: \<open>admin\<close> / \<open>password\<close> resolves
  and logs the user in; \<open>admin\<close> / \<open>admin\<close> is rejected and changes nothing.
\<close>

theorem login_witness:
  "snd (login never_raises ''admin'' ''password''
       \<lparr> sessionStorage = Map.empty,
         store = run jsvalue_type never_raises [Subscribe ''isAuthenticated'' 6]
                   stateManager \<rparr>)
     = ([(6, Bool True)], Resolved \<lparr> name = ''Admin User'', username = ''admin'' \<rparr>)
   \<and> sessionStorage (fst (login never_raises ''admin'' ''password''
       \<lparr> sessionStorage = Map.empty,
         store = run jsvalue_type never_raises [Subscribe ''isAuthenticated'' 6]
                   stateManager \<rparr>)) ''authUser''
     = Some (JSON_stringify \<lparr> name = ''Admin User'', username = ''admin'' \<rparr>)
   \<and> get (store (fst (login never_raises ''admin'' ''password''
       \<lparr> sessionStorage = Map.empty,
         store = run jsvalue_type never_raises [Subscribe ''isAuthenticated'' 6]
                   stateManager \<rparr>))) ''isAuthenticated''
     = Value (Bool True)
   \<and> get (store (fst (login never_raises ''admin'' ''password''
       \<lparr> sessionStorage = Map.empty,
         store = run jsvalue_type never_raises [Subscribe ''isAuthenticated'' 6]
                   stateManager \<rparr>))) ''user''
     = Value (UserObj \<lparr> name = ''Admin User'', username = ''admin'' \<rparr>)
   \<and> login never_raises ''admin'' ''admin''
       \<lparr> sessionStorage = Map.empty,
         store = run jsvalue_type never_raises [Subscribe ''isAuthenticated'' 6]
                   stateManager \<rparr>
     = (\<lparr> sessionStorage = Map.empty,
          store = run jsvalue_type never_raises [Subscribe ''isAuthenticated'' 6]
                    stateManager \<rparr>,
        [],
        Rejected ''Invalid credentials. Try admin/password.'')"
  using login_accepts_one_pair [of never_raises "''admin''" "''password''"
          "\<lparr> sessionStorage = Map.empty,
             store = run jsvalue_type never_raises [Subscribe ''isAuthenticated'' 6]
                       stateManager \<rparr>"]
    login_accepts_one_pair [of never_raises "''admin''" "''admin''"
          "\<lparr> sessionStorage = Map.empty,
             store = run jsvalue_type never_raises [Subscribe ''isAuthenticated'' 6]
                       stateManager \<rparr>"]
  by (simp add: login_def loginUser_def set_key_eq subscribe_eq subscribers_def
        stateManager_def initialState_def never_raises_def run_def Let_def get_def
        ordinary_keys inherited_keys assign_state_def)

end
